theory Spec2Isabelle
  imports Complex_Main
begin

section \<open>JavaScript string and array helpers\<close>

text \<open>
  Strings are lists of characters. The helpers below are the library calls the two games
  make: \<^verbatim>\<open>s.startsWith(p)\<close>, \<^verbatim>\<open>s.includes(sub)\<close>, \<^verbatim>\<open>s.split(d)[0]\<close>, \<^verbatim>\<open>s.trim()\<close>
  and \<^verbatim>\<open>s.replace(pat, rep)\<close> with a string pattern (first occurrence only).
  \<open>is_space\<close> lists the white space and line terminators of \<^verbatim>\<open>trim\<close> that fit in a
  \<open>char\<close>: space, tab, line feed, vertical tab, form feed, carriage return and the
  no-break space.
\<close>

fun startsWith :: "string \<Rightarrow> string \<Rightarrow> bool" where
  "startsWith s [] = True"
| "startsWith [] (p # ps) = False"
| "startsWith (c # cs) (p # ps) = (c = p \<and> startsWith cs ps)"

fun str_includes :: "string \<Rightarrow> string \<Rightarrow> bool" where
  "str_includes [] sub = (sub = [])"
| "str_includes (c # cs) sub = (startsWith (c # cs) sub \<or> str_includes cs sub)"

definition is_space :: "char \<Rightarrow> bool" where
  "is_space c = (c = CHR '' '' \<or> c = CHR 0x09 \<or> c = CHR 0x0A \<or> c = CHR 0x0B
                 \<or> c = CHR 0x0C \<or> c = CHR 0x0D \<or> c = CHR 0xA0)"

definition trim :: "string \<Rightarrow> string" where
  "trim s = rev (dropWhile is_space (rev (dropWhile is_space s)))"

definition split_first :: "char \<Rightarrow> string \<Rightarrow> string" where
  "split_first d s = takeWhile (\<lambda>c. c \<noteq> d) s"

fun replaceFirst :: "string \<Rightarrow> string \<Rightarrow> string \<Rightarrow> string" where
  "replaceFirst pat rep [] = (if pat = [] then rep else [])"
| "replaceFirst pat rep (c # cs) =
     (if startsWith (c # cs) pat then rep @ drop (length pat) (c # cs)
      else c # replaceFirst pat rep cs)"

text \<open>The short name of a signal: \<^verbatim>\<open>s.split(':')[0].trim()\<close>.\<close>

definition signalName :: "string \<Rightarrow> string" where
  "signalName s = trim (split_first (CHR '':'') s)"

text \<open>\<^verbatim>\<open>a || b\<close> on two lookups whose hits are objects (always truthy).\<close>

definition orElse :: "'a option \<Rightarrow> 'a option \<Rightarrow> 'a option" where
  "orElse a b = (case a of Some x \<Rightarrow> Some x | None \<Rightarrow> b)"

text \<open>
  The databases of both games are plain objects, so a lookup \<^verbatim>\<open>db[key]\<close> with a key the
  table does not own still finds the properties every object inherits from
  \<^verbatim>\<open>Object.prototype\<close>. What it finds there is a function or an object: truthy, and
  without any of the fields of a table entry.
\<close>

definition object_prototype_keys :: "string list" where
  "object_prototype_keys =
    [''constructor'', ''__proto__'', ''hasOwnProperty'', ''isPrototypeOf'',
     ''propertyIsEnumerable'', ''toString'', ''toLocaleString'', ''valueOf'',
     ''__defineGetter__'', ''__defineSetter__'', ''__lookupGetter__'', ''__lookupSetter__'']"

section \<open>The decoder game: data model\<close>

datatype RiskLevel = low | medium | high | very_high

text \<open>
  \<^verbatim>\<open>AreaInfo\<close> without its \<^verbatim>\<open>description\<close>, which only appears in success payloads.
  The field \<^verbatim>\<open>artifacts\<close> of an area is \<open>area_artifacts\<close> here, as the game state has a
  field of the same name.
\<close>

record AreaInfo =
  area_artifacts :: "string list"
  signals :: "string list"
  connections :: "string list"
  riskLevel :: RiskLevel
  explored :: bool

record Recipe =
  decoded :: string
  recipe_value :: int
  bonus :: string

text \<open>
  The mutable part of a \<^verbatim>\<open>DecoderGame\<close>: the fields of its \<^verbatim>\<open>GameState\<close> and
  \<^verbatim>\<open>database.area\<close>, whose entries the tools update in place (\<^verbatim>\<open>explored\<close>,
  \<^verbatim>\<open>artifacts\<close>). \<^verbatim>\<open>database.artifact\<close> and \<^verbatim>\<open>database.signal\<close> are written by
  \<^verbatim>\<open>init\<close> only and are constants below. Numbers are integers: every update adds or
  subtracts an integer.
\<close>

record DecoderGame =
  position :: string
  energy :: int
  artifacts :: "string list"
  decodedSignals :: "string list"
  exploredAreas :: "string list"
  gatheredClues :: "string list"
  hypotheses :: "string list"
  score :: int
  stepCount :: int
  bonusesEarned :: "string list"
  completed :: bool
  area :: "string \<rightharpoonup> AreaInfo"

definition init_area :: "(string \<times> AreaInfo) list" where
  "init_area =
  [(''landing_zone'',
      \<lparr>area_artifacts = [''signal_scanner'', ''energy_crystal''],
       signals = [''basic_frequency: Alpha waves detected - pattern repeats every 3 units''],
       connections = [''volcanic_plains'', ''crystal_forest''],
       riskLevel = low, explored = True\<rparr>),
   (''volcanic_plains'',
      \<lparr>area_artifacts = [''heat_resistant_probe'', ''lava_sample''],
       signals = [''interference_pattern: Beta spikes - correlates with heat sources, offset by 2''],
       connections = [''landing_zone'', ''underground_caverns'', ''ancient_ruins''],
       riskLevel = medium, explored = False\<rparr>),
   (''crystal_forest'',
      \<lparr>area_artifacts = [''vibration_analyzer'', ''crystal_shard''],
       signals = [''harmonic_sequence: Gamma harmonics - builds on alpha, multiplies by 1.5''],
       connections = [''landing_zone'', ''hidden_lake'', ''ancient_ruins''],
       riskLevel = low, explored = False\<rparr>),
   (''underground_caverns'',
      \<lparr>area_artifacts = [''echo_locator'', ''fossil_remnant''],
       signals = [''echo_code: Delta echoes - reflects beta, inverts every 4th unit''],
       connections = [''volcanic_plains'', ''signal_source''],
       riskLevel = high, explored = False\<rparr>),
   (''hidden_lake'',
      \<lparr>area_artifacts = [''water_sampler'', ''aquatic_artifact''],
       signals = [''wave_ripple: Epsilon ripples - combines gamma and alpha, averages values''],
       connections = [''crystal_forest'', ''signal_source''],
       riskLevel = medium, explored = False\<rparr>),
   (''ancient_ruins'',
      \<lparr>area_artifacts = [''symbol_decoder'', ''engraved_tablet''],
       signals = [''symbol_cipher: Zeta symbols - synthesizes beta and delta, shifts by 3''],
       connections = [''volcanic_plains'', ''crystal_forest''],
       riskLevel = medium, explored = False\<rparr>),
   (''signal_source'',
      \<lparr>area_artifacts = [''master_artifact''],
       signals = [''core_transmission: Omega core - integrates all patterns, solve with combined clues''],
       connections = [''underground_caverns'', ''hidden_lake''],
       riskLevel = very_high, explored = False\<rparr>)]"

text \<open>\<^verbatim>\<open>database.artifact\<close>: the \<^verbatim>\<open>value\<close> of each artifact (the other fields are hints).\<close>

definition artifact_db :: "(string \<times> int) list" where
  "artifact_db =
  [(''signal_scanner'', 20), (''energy_crystal'', 15), (''heat_resistant_probe'', 30),
   (''lava_sample'', 25), (''vibration_analyzer'', 35), (''crystal_shard'', 20),
   (''echo_locator'', 40), (''fossil_remnant'', 30), (''water_sampler'', 25),
   (''aquatic_artifact'', 35), (''symbol_decoder'', 45), (''engraved_tablet'', 40),
   (''master_artifact'', 100)]"

text \<open>\<^verbatim>\<open>database.signal\<close>: the decode recipes, keyed by \<^verbatim>\<open>name1+name2\<close>.\<close>

definition signal_db :: "(string \<times> Recipe) list" where
  "signal_db =
  [(''basic_frequency+harmonic_sequence'',
      \<lparr>decoded = ''Alpha-Gamma Harmonic Link'', recipe_value = 100, bonus = ''pattern_chain''\<rparr>),
   (''interference_pattern+echo_code'',
      \<lparr>decoded = ''Beta-Delta Thermal Echo'', recipe_value = 120, bonus = ''risk_reward''\<rparr>),
   (''wave_ripple+symbol_cipher'',
      \<lparr>decoded = ''Epsilon-Zeta Ancient Code'', recipe_value = 150, bonus = ''synthesis''\<rparr>),
   (''basic_frequency+interference_pattern'',
      \<lparr>decoded = ''Alpha-Beta Baseline'', recipe_value = 90, bonus = ''foundation''\<rparr>),
   (''harmonic_sequence+wave_ripple'',
      \<lparr>decoded = ''Gamma-Epsilon Resonance'', recipe_value = 110, bonus = ''resonance''\<rparr>),
   (''echo_code+symbol_cipher'',
      \<lparr>decoded = ''Delta-Zeta Underground Cipher'', recipe_value = 130, bonus = ''ancient_link''\<rparr>)]"

definition init :: DecoderGame where
  "init =
    \<lparr>position = ''landing_zone'', energy = 30, artifacts = [], decodedSignals = [],
     exploredAreas = [''landing_zone''], gatheredClues = [], hypotheses = [], score = 0,
     stepCount = 0, bonusesEarned = [], completed = False, area = map_of init_area\<rparr>"

text \<open>
  \<^verbatim>\<open>DecoderGame.getFinalScore\<close>. The quotient \<^verbatim>\<open>score / stepCount\<close> is the exact quotient
  of the two integers, as a real number.
\<close>

definition getFinalScore :: "DecoderGame \<Rightarrow> int" where
  "getFinalScore g =
    (let energyBonus = energy g * 10;
         efficiency = (if stepCount g > 0
                       then real_of_int (score g) / real_of_int (stepCount g) else 0);
         efficiencyBonus = (if efficiency > 100 then 200 else if efficiency > 50 then 100 else 0);
         reflectionBonus = int (length (hypotheses g)) * 50
     in score g + energyBonus + efficiencyBonus + reflectionBonus)"

definition isCompleted :: "DecoderGame \<Rightarrow> bool" where
  "isCompleted g = completed g"

section \<open>The decoder game: tools\<close>

text \<open>
  Each tool's \<^verbatim>\<open>execute\<close> returns a \<^verbatim>\<open>ToolResult\<close> and mutates the game; here it returns
  the result and the game after the call. The error messages are the constructors of
  \<open>ToolError\<close>. \<open>ToolException\<close> is the error \<^verbatim>\<open>createTool\<close> builds when \<^verbatim>\<open>execute\<close>
  throws (a property read on \<^verbatim>\<open>undefined\<close>): the mutations made before the throw stay.
  A success payload keeps the fields that are computed by the tool; the snapshots of
  the state it repeats (score, energy, steps used) are read from the returned game.
\<close>

datatype ToolError =
    UnknownArea
  | NotConnected
  | InsufficientEnergy int int
  | ArtifactNotAvailable
  | AlreadyCollected
  | SignalNotAvailable
  | AlreadyAnalyzed
  | MissingClues
  | IncompatibleSignals
  | AlreadyDecoded
  | NoEnergyCrystal
  | NotAtSource
  | NeedMoreDecodes nat
  | ToolException

datatype Payload =
    Connections "(string \<times> bool \<times> RiskLevel \<times> int) list"
  | Moved string "int option"
  | Collected string int
  | Analyzed string int
  | Decoded Recipe int
  | Planned "string list"
  | CrystalUsed
  | Finalized int int

type_synonym ToolResult = "ToolError + Payload"

fun riskCosts :: "RiskLevel \<Rightarrow> int" where
  "riskCosts low = 1"
| "riskCosts medium = 2"
| "riskCosts high = 3"
| "riskCosts very_high = 4"

text \<open>
  \<^verbatim>\<open>ExploreConnectionsTool\<close>: the step is counted first; the listing then reads each
  connected area and throws when one is not in the database.
\<close>

fun connectionRows :: "(string \<rightharpoonup> AreaInfo) \<Rightarrow> string list
    \<Rightarrow> (string \<times> bool \<times> RiskLevel \<times> int) list option" where
  "connectionRows db [] = Some []"
| "connectionRows db (areaName # rest) =
     (case db areaName of
        None \<Rightarrow> None
      | Some a \<Rightarrow>
          (case connectionRows db rest of
             None \<Rightarrow> None
           | Some rows \<Rightarrow> Some ((areaName, explored a, riskLevel a, riskCosts (riskLevel a)) # rows)))"

definition exploreConnections :: "DecoderGame \<Rightarrow> ToolResult \<times> DecoderGame" where
  "exploreConnections g =
    (let g1 = g\<lparr>stepCount := stepCount g + 1\<rparr> in
     case area g1 (position g1) of
       None \<Rightarrow> (Inl ToolException, g1)
     | Some currentArea \<Rightarrow>
         (case connectionRows (area g1) (connections currentArea) of
            None \<Rightarrow> (Inl ToolException, g1)
          | Some rows \<Rightarrow> (Inr (Connections rows), g1)))"

text \<open>
  \<^verbatim>\<open>MoveToAreaTool\<close>. The target is looked up before the current area is read, and the
  current area is read (\<^verbatim>\<open>currentArea.connections\<close>) before anything is assigned. A name
  that the area table does not own and no object inherits is an unknown area. An
  inherited name passes the test \<^verbatim>\<open>!targetArea\<close> and is rejected by the next one, as not
  connected. Were it listed as a connection of the current area, the cost read from it
  would be \<^verbatim>\<open>undefined\<close> and the arithmetic would leave the integers; no area of \<open>init\<close>
  lists one and no tool writes a connection list (\<open>reachable_no_inherited_connection\<close>
  below), and the model answers \<open>ToolException\<close> there. The same holds for the listing of
  \<open>exploreConnections\<close>.
\<close>

definition moveToArea :: "string \<Rightarrow> DecoderGame \<Rightarrow> ToolResult \<times> DecoderGame" where
  "moveToArea a g =
    (case area g a of
       None \<Rightarrow>
         if a \<notin> set object_prototype_keys then (Inl UnknownArea, g)
         else
           (case area g (position g) of
              None \<Rightarrow> (Inl ToolException, g)
            | Some currentArea \<Rightarrow>
                if a \<notin> set (connections currentArea) then (Inl NotConnected, g)
                else (Inl ToolException, g))
     | Some targetArea \<Rightarrow>
         (case area g (position g) of
            None \<Rightarrow> (Inl ToolException, g)
          | Some currentArea \<Rightarrow>
              if a \<notin> set (connections currentArea) then (Inl NotConnected, g)
              else
                let energyCost = riskCosts (riskLevel targetArea) in
                if energy g < energyCost
                then (Inl (InsufficientEnergy energyCost (energy g)), g)
                else
                  let g1 = g\<lparr>energy := energy g - energyCost,
                             stepCount := stepCount g + 1,
                             position := a\<rparr> in
                  if \<not> explored targetArea then
                    let exploreBonus = energyCost * 10 in
                    (Inr (Moved a (Some exploreBonus)),
                     g1\<lparr>area := (area g)(a \<mapsto> targetArea\<lparr>explored := True\<rparr>),
                        exploredAreas := exploredAreas g @ [a],
                        score := score g + exploreBonus\<rparr>)
                  else (Inr (Moved a None), g1)))"

text \<open>
  \<^verbatim>\<open>CollectArtifactTool\<close>: the energy check comes first. The artifact's value is read
  after the energy, the step counter and the inventory are updated, so an artifact that
  an area lists and the artifact database does not know throws there.
\<close>

definition collectArtifact :: "string \<Rightarrow> DecoderGame \<Rightarrow> ToolResult \<times> DecoderGame" where
  "collectArtifact artifact g =
    (let energyCost = 1 in
     if energy g < energyCost then (Inl (InsufficientEnergy energyCost (energy g)), g)
     else
       case area g (position g) of
         None \<Rightarrow> (Inl ToolException, g)
       | Some currentArea \<Rightarrow>
           if artifact \<notin> set (area_artifacts currentArea) then (Inl ArtifactNotAvailable, g)
           else if artifact \<in> set (artifacts g) then (Inl AlreadyCollected, g)
           else
             let g1 = g\<lparr>energy := energy g - energyCost,
                        stepCount := stepCount g + 1,
                        artifacts := artifacts g @ [artifact]\<rparr> in
             (case map_of artifact_db artifact of
                None \<Rightarrow> (Inl ToolException, g1)
              | Some v \<Rightarrow>
                  (Inr (Collected artifact v),
                   g1\<lparr>score := score g + v,
                      area := (area g)(position g \<mapsto>
                        currentArea\<lparr>area_artifacts := remove1 artifact (area_artifacts currentArea)\<rparr>)\<rparr>)))"

text \<open>
  \<^verbatim>\<open>AnalyzeClueTool\<close>. \<^verbatim>\<open>!matchingSignal\<close> is also true of the empty string.
\<close>

definition analyzeClue :: "string \<Rightarrow> DecoderGame \<Rightarrow> ToolResult \<times> DecoderGame" where
  "analyzeClue signal g =
    (let hasVibrationAnalyzer = (''vibration_analyzer'' \<in> set (artifacts g)) in
     case area g (position g) of
       None \<Rightarrow> (Inl ToolException, g)
     | Some currentArea \<Rightarrow>
         let isHarmonicArea =
               list_ex (\<lambda>s. str_includes s ''harmonic'' \<or> str_includes s ''Gamma'')
                 (signals currentArea);
             energyCost = (if hasVibrationAnalyzer \<and> isHarmonicArea then 0 else 1) in
         if energy g < energyCost then (Inl (InsufficientEnergy energyCost (energy g)), g)
         else
           (case find (\<lambda>s. signalName s = signalName signal \<or> s = signal) (signals currentArea) of
              None \<Rightarrow> (Inl SignalNotAvailable, g)
            | Some matchingSignal \<Rightarrow>
                if matchingSignal = [] then (Inl SignalNotAvailable, g)
                else if matchingSignal \<in> set (gatheredClues g) then (Inl AlreadyAnalyzed, g)
                else
                  (Inr (Analyzed matchingSignal energyCost),
                   g\<lparr>energy := energy g - energyCost,
                     stepCount := stepCount g + 1,
                     gatheredClues := gatheredClues g @ [matchingSignal],
                     score := score g + 30\<rparr>)))"

text \<open>
  \<^verbatim>\<open>DecodeSignalTool\<close>. \<open>findClue\<close> is the local function of that name;
  \<open>recipeFor\<close> is the lookup \<^verbatim>\<open>database.signal[comboKey1] || database.signal[comboKey2]\<close>.
\<close>

definition findClue :: "DecoderGame \<Rightarrow> string \<Rightarrow> string option" where
  "findClue g input =
     find (\<lambda>clue. signalName clue = signalName input \<or> clue = input) (gatheredClues g)"

definition recipeFor :: "string \<Rightarrow> string \<Rightarrow> Recipe option" where
  "recipeFor clue1 clue2 =
    (let comboKey1 = signalName clue1 @ ''+'' @ signalName clue2;
         comboKey2 = signalName clue2 @ ''+'' @ signalName clue1
     in orElse (map_of signal_db comboKey1) (map_of signal_db comboKey2))"

definition decodeCost :: "DecoderGame \<Rightarrow> int" where
  "decodeCost g = (if ''signal_scanner'' \<in> set (artifacts g) then 1 else 2)"

definition decodeSignal :: "string \<Rightarrow> string \<Rightarrow> DecoderGame \<Rightarrow> ToolResult \<times> DecoderGame" where
  "decodeSignal signal1 signal2 g =
    (let energyCost = decodeCost g in
     if energy g < energyCost then (Inl (InsufficientEnergy energyCost (energy g)), g)
     else
       case findClue g signal1 of
         None \<Rightarrow> (Inl MissingClues, g)
       | Some clue1 \<Rightarrow>
           (case findClue g signal2 of
              None \<Rightarrow> (Inl MissingClues, g)
            | Some clue2 \<Rightarrow>
                if clue1 = [] \<or> clue2 = [] then (Inl MissingClues, g)
                else
                  (case recipeFor clue1 clue2 of
                     None \<Rightarrow> (Inl IncompatibleSignals, g)
                   | Some recipe \<Rightarrow>
                       let decodedKey = clue1 @ ''+'' @ clue2;
                           reverseKey = clue2 @ ''+'' @ clue1 in
                       if decodedKey \<in> set (decodedSignals g) \<or> reverseKey \<in> set (decodedSignals g)
                       then (Inl AlreadyDecoded, g)
                       else
                         (Inr (Decoded recipe energyCost),
                          g\<lparr>energy := energy g - energyCost,
                            stepCount := stepCount g + 1,
                            decodedSignals := decodedSignals g @ [decodedKey],
                            score := score g + recipe_value recipe,
                            bonusesEarned := bonusesEarned g @ [bonus recipe]\<rparr>))))"

definition planOptimalRoute :: "string list \<Rightarrow> DecoderGame \<Rightarrow> ToolResult \<times> DecoderGame" where
  "planOptimalRoute moves g = (Inr (Planned moves), g\<lparr>stepCount := stepCount g + 1\<rparr>)"

definition useEnergyCrystal :: "DecoderGame \<Rightarrow> ToolResult \<times> DecoderGame" where
  "useEnergyCrystal g =
    (if ''energy_crystal'' \<notin> set (artifacts g) then (Inl NoEnergyCrystal, g)
     else
       (Inr CrystalUsed,
        g\<lparr>stepCount := stepCount g + 1,
          artifacts := remove1 ''energy_crystal'' (artifacts g),
          energy := energy g + 5\<rparr>))"

text \<open>
  \<^verbatim>\<open>FinalizeDiscoveryTool\<close>. The payload keeps \<^verbatim>\<open>baseScore\<close> and \<^verbatim>\<open>energyBonus\<close>; its
  efficiency bonus and ranking go through \<^verbatim>\<open>toFixed(1)\<close> and are not part of the state.
\<close>

definition finalizeDiscovery :: "string \<Rightarrow> DecoderGame \<Rightarrow> ToolResult \<times> DecoderGame" where
  "finalizeDiscovery finalHypothesis g =
    (let g1 = g\<lparr>stepCount := stepCount g + 1\<rparr>;
         isAtSource = (position g1 = ''signal_source'');
         hasMinimumDecodes = (length (decodedSignals g1) \<ge> 3) in
     if \<not> isAtSource then (Inl NotAtSource, g1)
     else if \<not> hasMinimumDecodes then (Inl (NeedMoreDecodes (length (decodedSignals g1))), g1)
     else
       let omegaBonus = 500;
           g2 = g1\<lparr>completed := True,
                   score := score g1 + omegaBonus,
                   bonusesEarned := bonusesEarned g1 @ [''omega_revelation'']\<rparr>;
           energyBonus = energy g2 * 10
       in (Inr (Finalized (score g2) energyBonus), g2))"

text \<open>The tools of \<^verbatim>\<open>createDecoderGame\<close>, as one action type, and runs of actions.\<close>

datatype Action =
    ExploreConnections
  | MoveToArea string
  | CollectArtifact string
  | AnalyzeClue string
  | DecodeSignal string string
  | UseEnergyCrystal
  | PlanOptimalRoute "string list"
  | FinalizeDiscovery string

fun execute :: "Action \<Rightarrow> DecoderGame \<Rightarrow> ToolResult \<times> DecoderGame" where
  "execute ExploreConnections g = exploreConnections g"
| "execute (MoveToArea a) g = moveToArea a g"
| "execute (CollectArtifact a) g = collectArtifact a g"
| "execute (AnalyzeClue s) g = analyzeClue s g"
| "execute (DecodeSignal s1 s2) g = decodeSignal s1 s2 g"
| "execute UseEnergyCrystal g = useEnergyCrystal g"
| "execute (PlanOptimalRoute moves) g = planOptimalRoute moves g"
| "execute (FinalizeDiscovery h) g = finalizeDiscovery h g"

fun run :: "Action list \<Rightarrow> DecoderGame \<Rightarrow> DecoderGame" where
  "run [] g = g"
| "run (a # as) g = run as (snd (execute a g))"

inductive reachable :: "DecoderGame \<Rightarrow> bool" where
  reach_init: "reachable init"
| reach_step: "reachable g \<Longrightarrow> reachable (snd (execute a g))"

text \<open>\<^verbatim>\<open>area.explored\<close> as the tools read it, for an area name.\<close>

definition isExplored :: "DecoderGame \<Rightarrow> string \<Rightarrow> bool" where
  "isExplored g a = (case area g a of None \<Rightarrow> False | Some t \<Rightarrow> explored t)"

text \<open>
  Whether a run of actions from \<open>g\<close> has a successful move into the area \<open>a\<close>: the area
  has been entered in the course of the run.
\<close>

fun entered :: "Action list \<Rightarrow> DecoderGame \<Rightarrow> string \<Rightarrow> bool" where
  "entered [] g a = False"
| "entered (x # xs) g a =
     ((x = MoveToArea a \<and> \<not> isl (fst (execute x g))) \<or> entered xs (snd (execute x g)) a)"

section \<open>The travel game\<close>

text \<open>
  \<^verbatim>\<open>TravelGame\<close>: its \<^verbatim>\<open>GameState\<close>, with the fields \<^verbatim>\<open>score\<close>, \<^verbatim>\<open>stepCount\<close> and
  \<^verbatim>\<open>completed\<close> prefixed (the decoder game has fields of the same names), and its two
  databases, which only \<^verbatim>\<open>init\<close> writes. A city keeps its \<^verbatim>\<open>name\<close> and \<^verbatim>\<open>value\<close>, a
  route its \<^verbatim>\<open>cost\<close> and \<^verbatim>\<open>time\<close>.
\<close>

record CityInfo =
  city_name :: string
  city_value :: int

record TransportInfo =
  route_cost :: int
  route_time :: int

record TravelGame =
  currentCity :: string
  budget :: int
  visitedCities :: "string list"
  totalSpent :: int
  travel_score :: int
  travel_stepCount :: int
  travel_completed :: bool

definition TRAVEL_MAX_STEPS :: int where
  "TRAVEL_MAX_STEPS = 8"

definition cities :: "(string \<times> CityInfo) list" where
  "cities =
  [(''newyork'', \<lparr>city_name = ''New York'', city_value = 50\<rparr>),
   (''paris'', \<lparr>city_name = ''Paris'', city_value = 150\<rparr>),
   (''tokyo'', \<lparr>city_name = ''Tokyo'', city_value = 200\<rparr>),
   (''sydney'', \<lparr>city_name = ''Sydney'', city_value = 120\<rparr>),
   (''rio'', \<lparr>city_name = ''Rio de Janeiro'', city_value = 130\<rparr>),
   (''capetown'', \<lparr>city_name = ''Cape Town'', city_value = 110\<rparr>)]"

definition routes :: "(string \<times> TransportInfo) list" where
  "routes =
  [(''newyork-paris'', \<lparr>route_cost = 800, route_time = 1\<rparr>),
   (''newyork-tokyo'', \<lparr>route_cost = 1200, route_time = 2\<rparr>),
   (''newyork-rio'', \<lparr>route_cost = 900, route_time = 1\<rparr>),
   (''paris-tokyo'', \<lparr>route_cost = 1000, route_time = 2\<rparr>),
   (''paris-sydney'', \<lparr>route_cost = 1100, route_time = 2\<rparr>),
   (''paris-capetown'', \<lparr>route_cost = 850, route_time = 1\<rparr>),
   (''tokyo-sydney'', \<lparr>route_cost = 600, route_time = 1\<rparr>),
   (''tokyo-capetown'', \<lparr>route_cost = 950, route_time = 2\<rparr>),
   (''sydney-capetown'', \<lparr>route_cost = 700, route_time = 1\<rparr>),
   (''rio-capetown'', \<lparr>route_cost = 750, route_time = 1\<rparr>),
   (''rio-sydney'', \<lparr>route_cost = 1050, route_time = 2\<rparr>),
   (''paris-capetown_train'', \<lparr>route_cost = 400, route_time = 3\<rparr>),
   (''newyork-rio_bus'', \<lparr>route_cost = 150, route_time = 4\<rparr>),
   (''tokyo-sydney_bus'', \<lparr>route_cost = 200, route_time = 5\<rparr>)]"

definition requiredCities :: "string list" where
  "requiredCities = [''paris'', ''tokyo'', ''sydney'', ''rio'', ''capetown'']"

definition travel_init :: TravelGame where
  "travel_init =
    \<lparr>currentCity = ''newyork'', budget = 2000, visitedCities = [''newyork''], totalSpent = 0,
     travel_score = 0, travel_stepCount = 0, travel_completed = False\<rparr>"

text \<open>
  \<^verbatim>\<open>TravelGame.getFinalScore\<close>. \<open>cityScore\<close> is the \<^verbatim>\<open>reduce\<close> over the visited cities,
  with its accumulator; reading \<^verbatim>\<open>.value\<close> of a city the database does not have throws
  (\<open>None\<close>). \<^verbatim>\<open>Math.floor(budget / 100)\<close> is \<open>div\<close> on integers, which rounds down.
\<close>

fun cityScore :: "string list \<Rightarrow> int \<Rightarrow> int option" where
  "cityScore [] acc = Some acc"
| "cityScore (city # rest) acc =
     (case map_of cities city of
        None \<Rightarrow> None
      | Some info \<Rightarrow> cityScore rest (acc + city_value info))"

definition travel_getFinalScore :: "TravelGame \<Rightarrow> int option" where
  "travel_getFinalScore g =
    (case cityScore (visitedCities g) 0 of
       None \<Rightarrow> None
     | Some cityScore' \<Rightarrow>
         let budgetBonus = (budget g div 100) * 5;
             allVisited = list_all (\<lambda>city. city \<in> set (visitedCities g)) requiredCities;
             completionBonus = (if allVisited then 500 else 0)
         in Some (cityScore' + budgetBonus + completionBonus))"

definition travel_isCompleted :: "TravelGame \<Rightarrow> bool" where
  "travel_isCompleted g = list_all (\<lambda>city. city \<in> set (visitedCities g)) requiredCities"

datatype TravelError =
    RouteNotAvailable
  | WrongStart
  | InsufficientBudget int int
  | NotEnoughSteps int int
  | TravelException

datatype TravelPayload =
    Routes "(string \<times> string \<times> int \<times> int) list"
  | Travelled string int int
  | Plan "string list"

type_synonym TravelResult = "TravelError + TravelPayload"

text \<open>
  The destination of a route key from the current city:
  \<^verbatim>\<open>routeKey.replace(`${currentCity}-`, '').split('_')[0]\<close>.
\<close>

definition destinationOf :: "string \<Rightarrow> string \<Rightarrow> string" where
  "destinationOf current routeKey =
     split_first (CHR ''_'') (replaceFirst (current @ ''-'') [] routeKey)"

text \<open>
  \<^verbatim>\<open>TravelTool\<close>. A key that \<^verbatim>\<open>database.routes\<close> does not own and no object inherits
  is not available. An inherited key passes the test \<^verbatim>\<open>!route\<close> and fails the next one:
  it has no \<open>-\<close> in it, so it does not start with the current city and a \<open>-\<close>
  (\<open>inherited_key_wrong_start\<close> below). The city record is read after the state is
  updated (for the visit bonus, and for the payload), so a destination outside the city
  database throws there.
\<close>

definition travel :: "string \<Rightarrow> TravelGame \<Rightarrow> TravelResult \<times> TravelGame" where
  "travel routeKey g =
    (case map_of routes routeKey of
       None \<Rightarrow>
         if routeKey \<in> set object_prototype_keys then (Inl WrongStart, g)
         else (Inl RouteNotAvailable, g)
     | Some route \<Rightarrow>
         if \<not> startsWith routeKey (currentCity g @ ''-'') then (Inl WrongStart, g)
         else
           let destination = destinationOf (currentCity g) routeKey in
           if budget g < route_cost route
           then (Inl (InsufficientBudget (route_cost route) (budget g)), g)
           else if travel_stepCount g + route_time route > TRAVEL_MAX_STEPS
           then (Inl (NotEnoughSteps (route_time route) (TRAVEL_MAX_STEPS - travel_stepCount g)), g)
           else
             let g1 = g\<lparr>budget := budget g - route_cost route,
                        totalSpent := totalSpent g + route_cost route,
                        travel_stepCount := travel_stepCount g + route_time route,
                        currentCity := destination\<rparr> in
             if destination \<notin> set (visitedCities g1) then
               let g2 = g1\<lparr>visitedCities := visitedCities g1 @ [destination]\<rparr> in
               (case map_of cities destination of
                  None \<Rightarrow> (Inl TravelException, g2)
                | Some info \<Rightarrow>
                    (Inr (Travelled (city_name info) (route_cost route) (route_time route)),
                     g2\<lparr>travel_score := travel_score g2 + city_value info\<rparr>))
             else
               (case map_of cities destination of
                  None \<Rightarrow> (Inl TravelException, g1)
                | Some info \<Rightarrow>
                    (Inr (Travelled (city_name info) (route_cost route) (route_time route)), g1)))"

text \<open>
  \<^verbatim>\<open>CheckRoutesTool\<close> and \<^verbatim>\<open>PlanRouteTool\<close> read the state and leave it as it is; both
  throw when the current city is not in the city database.
\<close>

definition cityLabel :: "string \<Rightarrow> string" where
  "cityLabel c = (case map_of cities c of None \<Rightarrow> c | Some info \<Rightarrow> city_name info)"

definition checkRoutes :: "TravelGame \<Rightarrow> TravelResult \<times> TravelGame" where
  "checkRoutes g =
    (let found =
           [(routeKey, cityLabel (destinationOf (currentCity g) routeKey),
             route_cost route, route_time route).
              (routeKey, route) \<leftarrow> routes,
              startsWith routeKey (currentCity g @ ''-''),
              destinationOf (currentCity g) routeKey \<noteq> [],
              destinationOf (currentCity g) routeKey \<noteq> currentCity g]
     in case map_of cities (currentCity g) of
          None \<Rightarrow> (Inl TravelException, g)
        | Some here \<Rightarrow>
            if list_all (\<lambda>city. map_of cities city \<noteq> None) (visitedCities g)
            then (Inr (Routes found), g) else (Inl TravelException, g))"

definition planRoute :: "TravelGame \<Rightarrow> TravelResult \<times> TravelGame" where
  "planRoute g =
    (let remainingCities = filter (\<lambda>city. city \<notin> set (visitedCities g)) requiredCities
     in case map_of cities (currentCity g) of
          None \<Rightarrow> (Inl TravelException, g)
        | Some here \<Rightarrow> (Inr (Plan (map cityLabel remainingCities)), g))"

datatype TravelAction = CheckRoutes | Travel string | PlanRoute

fun travel_execute :: "TravelAction \<Rightarrow> TravelGame \<Rightarrow> TravelResult \<times> TravelGame" where
  "travel_execute CheckRoutes g = checkRoutes g"
| "travel_execute (Travel routeKey) g = travel routeKey g"
| "travel_execute PlanRoute g = planRoute g"

inductive travel_reachable :: "TravelGame \<Rightarrow> bool" where
  travel_reach_init: "travel_reachable travel_init"
| travel_reach_step: "travel_reachable g \<Longrightarrow> travel_reachable (snd (travel_execute a g))"

text \<open>
  The final score of the route-planning variant in the words of the specification: the
  sum of the values of the visited cities, plus five points for every full hundred of
  budget left, plus 500 when every required city has been visited.
\<close>

definition valueOf :: "string \<Rightarrow> int" where
  "valueOf city = (case map_of cities city of None \<Rightarrow> 0 | Some info \<Rightarrow> city_value info)"

definition spec_travel_score :: "TravelGame \<Rightarrow> int" where
  "spec_travel_score g =
     (\<Sum>city \<leftarrow> visitedCities g. valueOf city)
     + \<lfloor>real_of_int (budget g) / 100\<rfloor> * 5
     + (if set [''paris'', ''tokyo'', ''sydney'', ''rio'', ''capetown''] \<subseteq> set (visitedCities g)
        then 500 else 0)"

text \<open>
  The states a travel game passes through from \<open>travel_init\<close>, as (city, steps, budget),
  and the check of one route against one of them: the route does not start there, or the
  budget does not cover it, or it fits in the step limit and leads to a listed state.
\<close>

definition travel_states :: "(string \<times> int \<times> int) list" where
  "travel_states =
    [(''newyork'', 0, 2000), (''paris'', 1, 1200), (''rio'', 1, 1100), (''rio'', 4, 1850),
     (''tokyo'', 2, 800), (''tokyo'', 3, 200),
     (''sydney'', 3, 50), (''sydney'', 3, 100), (''sydney'', 3, 200), (''sydney'', 6, 800),
     (''sydney'', 7, 600), (''sydney'', 8, 0),
     (''capetown'', 2, 350), (''capetown'', 4, 800), (''capetown'', 5, 1100),
     (''capetown'', 7, 100)]"

definition travel_inv :: "TravelGame \<Rightarrow> bool" where
  "travel_inv g =
    ((currentCity g, travel_stepCount g, budget g) \<in> set travel_states
     \<and> list_all (\<lambda>city. map_of cities city \<noteq> None) (visitedCities g))"

definition route_ok :: "string \<times> int \<times> int \<Rightarrow> string \<times> TransportInfo \<Rightarrow> bool" where
  "route_ok st kr =
    (case st of (c, s, b) \<Rightarrow> case kr of (k, r) \<Rightarrow>
       \<not> startsWith k (c @ ''-'') \<or> b < route_cost r \<or>
       (s + route_time r \<le> 8
        \<and> (destinationOf c k, s + route_time r, b - route_cost r) \<in> set travel_states
        \<and> map_of cities (destinationOf c k) \<noteq> None))"


section \<open>Concrete playthroughs\<close>

text \<open>Runs of actions from the initial states, and the states they end in.\<close>

definition winning_route :: "Action list" where
  "winning_route =
    [AnalyzeClue ''basic_frequency'', MoveToArea ''volcanic_plains'',
     AnalyzeClue ''interference_pattern'',
     DecodeSignal ''basic_frequency'' ''interference_pattern'',
     MoveToArea ''landing_zone'', MoveToArea ''crystal_forest'',
     AnalyzeClue ''harmonic_sequence'',
     DecodeSignal ''basic_frequency'' ''harmonic_sequence'',
     MoveToArea ''hidden_lake'', AnalyzeClue ''wave_ripple'',
     DecodeSignal ''harmonic_sequence'' ''wave_ripple'',
     MoveToArea ''signal_source'']"

definition ready :: DecoderGame where
  "ready = run winning_route init"

definition finished :: DecoderGame where
  "finished = snd (execute (FinalizeDiscovery ''omega'') ready)"

definition drain_route :: "Action list" where
  "drain_route =
    [AnalyzeClue ''basic_frequency'', MoveToArea ''crystal_forest'',
     AnalyzeClue ''harmonic_sequence'', MoveToArea ''hidden_lake'',
     MoveToArea ''signal_source'', MoveToArea ''hidden_lake'',
     MoveToArea ''signal_source'', MoveToArea ''hidden_lake'',
     MoveToArea ''signal_source'', MoveToArea ''hidden_lake'',
     MoveToArea ''signal_source'', CollectArtifact ''master_artifact'']"

definition low_energy :: DecoderGame where
  "low_energy = run drain_route init"

definition drained :: DecoderGame where
  "drained =
     run [AnalyzeClue ''basic_frequency'', MoveToArea ''crystal_forest'',
          AnalyzeClue ''harmonic_sequence'', MoveToArea ''hidden_lake'',
          MoveToArea ''signal_source'', MoveToArea ''hidden_lake'',
          MoveToArea ''signal_source'', MoveToArea ''hidden_lake'',
          MoveToArea ''signal_source'', MoveToArea ''hidden_lake'',
          MoveToArea ''signal_source'', AnalyzeClue ''core_transmission'',
          MoveToArea ''hidden_lake''] init"

definition with_crystal :: DecoderGame where
  "with_crystal = run [CollectArtifact ''energy_crystal''] init"

definition paired :: DecoderGame where
  "paired =
     run [AnalyzeClue ''basic_frequency'', MoveToArea ''crystal_forest'',
          AnalyzeClue ''harmonic_sequence''] init"

definition paired_later :: DecoderGame where
  "paired_later =
     run [MoveToArea ''landing_zone'']
       (snd (decodeSignal ''basic_frequency'' ''harmonic_sequence'' paired))"

definition geared :: DecoderGame where
  "geared =
     run [AnalyzeClue ''basic_frequency'', CollectArtifact ''signal_scanner'',
          MoveToArea ''crystal_forest'', CollectArtifact ''vibration_analyzer''] init"

definition geared_analyzed :: DecoderGame where
  "geared_analyzed = snd (analyzeClue ''harmonic_sequence'' geared)"

definition back_home :: DecoderGame where
  "back_home = run [MoveToArea ''volcanic_plains'', MoveToArea ''landing_zone''] init"


definition grand_tour :: TravelGame where
  "grand_tour =
     travel_init\<lparr>currentCity := ''capetown'', budget := 250,
       visitedCities := [''newyork'', ''paris'', ''tokyo'', ''sydney'', ''rio'', ''capetown'']\<rparr>"

section \<open>Facts about single steps of the decoder game\<close>

lemmas tool_defs = exploreConnections_def moveToArea_def collectArtifact_def analyzeClue_def
  decodeSignal_def planOptimalRoute_def useEnergyCrystal_def finalizeDiscovery_def

lemma completed_step: "completed g \<Longrightarrow> completed (snd (execute a g))"
  by (cases a) (auto simp: tool_defs Let_def split: option.splits)

lemma completed_run: "completed g \<Longrightarrow> completed (run acts g)"
  by (induction acts arbitrary: g) (auto simp: completed_step)

lemma energy_step: "0 \<le> energy g \<Longrightarrow> 0 \<le> energy (snd (execute a g))"
  by (cases a) (auto simp: tool_defs Let_def decodeCost_def split: option.splits)

lemma reachable_energy: "reachable g \<Longrightarrow> 0 \<le> energy g"
  by (induction rule: reachable.induct) (auto simp: init_def energy_step)

lemma hypotheses_step: "hypotheses (snd (execute a g)) = hypotheses g"
  by (cases a) (auto simp: tool_defs Let_def split: option.splits)

lemma reachable_hypotheses: "reachable g \<Longrightarrow> hypotheses g = []"
  by (induction rule: reachable.induct) (auto simp: init_def hypotheses_step)

lemma reachable_run: "reachable g \<Longrightarrow> reachable (run acts g)"
  by (induction acts arbitrary: g) (auto intro: reach_step)

lemma explored_step: "isExplored g x \<Longrightarrow> isExplored (snd (execute a g)) x"
  by (cases a) (auto simp: tool_defs Let_def isExplored_def split: option.splits)

lemma explored_run: "isExplored g x \<Longrightarrow> isExplored (run acts g) x"
  by (induction acts arbitrary: g) (auto simp: explored_step)

text \<open>
  An area is explored after a run exactly when it was explored before or the run has
  entered it; at \<open>init\<close> only the start area is explored. The list \<open>exploredAreas\<close> holds
  the explored areas in every reachable state, and every reachable state is the end of
  a run from \<open>init\<close>.
\<close>

lemma explored_step_iff:
  "isExplored (snd (execute x g)) a \<longleftrightarrow>
     isExplored g a \<or> (x = MoveToArea a \<and> \<not> isl (fst (execute x g)))"
  by (cases x) (auto simp: tool_defs Let_def isExplored_def split: option.splits if_splits)

lemma explored_run_iff: "isExplored (run hist g) a \<longleftrightarrow> isExplored g a \<or> entered hist g a"
  by (induction hist arbitrary: g) (auto simp: explored_step_iff)

lemma init_explored: "isExplored init a \<longleftrightarrow> a = ''landing_zone''"
  by (auto simp: isExplored_def init_def init_area_def split: option.splits if_splits)

lemma explored_from_init:
  "isExplored (run hist init) a \<longleftrightarrow> a = ''landing_zone'' \<or> entered hist init a"
  by (simp add: explored_run_iff init_explored)

lemma exploredAreas_step:
  assumes "\<And>b. isExplored g b \<longleftrightarrow> b \<in> set (exploredAreas g)"
  shows "isExplored (snd (execute x g)) a \<longleftrightarrow> a \<in> set (exploredAreas (snd (execute x g)))"
  using assms[of a] assms[of "position g"]
  by (cases x) (auto simp: tool_defs Let_def isExplored_def split: option.splits if_splits)

lemma reachable_exploredAreas:
  "reachable g \<Longrightarrow> isExplored g a \<longleftrightarrow> a \<in> set (exploredAreas g)"
proof (induction arbitrary: a rule: reachable.induct)
  case reach_init
  show ?case by (simp add: init_explored) (simp add: init_def)
next
  case (reach_step g x)
  show ?case by (rule exploredAreas_step) (rule reach_step.IH)
qed

lemma run_append: "run (xs @ ys) g = run ys (run xs g)"
  by (induction xs arbitrary: g) auto

lemma reachable_is_run: "reachable g \<longleftrightarrow> (\<exists>hist. g = run hist init)"
proof
  assume "reachable g"
  then show "\<exists>hist. g = run hist init"
  proof (induction rule: reachable.induct)
    case reach_init
    have "init = run [] init" by simp
    then show ?case by blast
  next
    case (reach_step g x)
    then obtain hist where "g = run hist init" by blast
    then have "snd (execute x g) = run (hist @ [x]) init" by (simp add: run_append)
    then show ?case by blast
  qed
next
  assume "\<exists>hist. g = run hist init"
  then show "reachable g" using reachable_run[OF reach_init] by blast
qed

lemma first_entry:
  assumes "\<not> isExplored g a" "fst (moveToArea a g) = Inr p"
  shows "\<exists>t. area g a = Some t \<and> p = Moved a (Some (riskCosts (riskLevel t) * 10)) \<and>
     snd (moveToArea a g) =
       g\<lparr>energy := energy g - riskCosts (riskLevel t), stepCount := stepCount g + 1,
         position := a, area := (area g)(a \<mapsto> t\<lparr>explored := True\<rparr>),
         exploredAreas := exploredAreas g @ [a],
         score := score g + riskCosts (riskLevel t) * 10\<rparr>"
  using assms
  by (auto simp: moveToArea_def Let_def isExplored_def split: option.splits if_splits)

lemma later_entry:
  assumes "isExplored g a" "fst (moveToArea a g) = Inr p"
  shows "\<exists>t. area g a = Some t \<and> p = Moved a None \<and>
     snd (moveToArea a g) =
       g\<lparr>energy := energy g - riskCosts (riskLevel t), stepCount := stepCount g + 1,
         position := a\<rparr>"
  using assms
  by (auto simp: moveToArea_def Let_def isExplored_def split: option.splits if_splits)

text \<open>
  No tool writes a connection list, so in a reachable state no area lists an inherited
  name as a connection.
\<close>

lemma connections_step:
  "map_option connections (area (snd (execute x g)) y) = map_option connections (area g y)"
  by (cases x) (auto simp: tool_defs Let_def split: option.splits if_splits)

lemma reachable_connections:
  "reachable g \<Longrightarrow>
     map_option connections (area g y) = map_option connections (map_of init_area y)"
  by (induction rule: reachable.induct) (simp_all add: init_def connections_step)

lemma init_no_inherited_connection:
  "(y, t) \<in> set init_area \<Longrightarrow> k \<in> set object_prototype_keys \<Longrightarrow> k \<notin> set (connections t)"
  unfolding init_area_def object_prototype_keys_def by auto

lemma reachable_no_inherited_connection:
  assumes "reachable g" "area g y = Some t" "k \<in> set object_prototype_keys"
  shows "k \<notin> set (connections t)"
proof -
  from reachable_connections[OF assms(1), of y] assms(2)
  obtain t0 where t0: "map_of init_area y = Some t0" "connections t0 = connections t"
    by (cases "map_of init_area y") auto
  from t0(1) have "(y, t0) \<in> set init_area" by (rule map_of_SomeD)
  from init_no_inherited_connection[OF this assms(3)] t0(2) show ?thesis by simp
qed

lemma move_unexplored:
  assumes "area g a = Some t" "\<not> explored t" "fst (moveToArea a g) = Inr p"
  shows "snd (moveToArea a g) =
           g\<lparr>energy := energy g - riskCosts (riskLevel t), stepCount := stepCount g + 1,
             position := a, area := (area g)(a \<mapsto> t\<lparr>explored := True\<rparr>),
             exploredAreas := exploredAreas g @ [a],
             score := score g + riskCosts (riskLevel t) * 10\<rparr>"
  using assms by (auto simp: moveToArea_def Let_def split: option.splits if_splits)

lemma move_explored:
  assumes "isExplored g a" "fst (moveToArea a g) = Inr p"
  shows "\<exists>t. area g a = Some t \<and> snd (moveToArea a g) =
           g\<lparr>energy := energy g - riskCosts (riskLevel t), stepCount := stepCount g + 1,
             position := a\<rparr>"
  using assms
  by (auto simp: moveToArea_def Let_def isExplored_def split: option.splits if_splits)

lemma move_marks: "fst (moveToArea a g) = Inr p \<Longrightarrow> isExplored (snd (moveToArea a g)) a"
  by (auto simp: moveToArea_def Let_def isExplored_def split: option.splits if_splits)

lemma move_low_energy:
  "area g a = Some t \<Longrightarrow> energy g < riskCosts (riskLevel t) \<Longrightarrow>
     \<exists>e. moveToArea a g = (Inl e, g)"
  by (auto simp: moveToArea_def Let_def split: option.splits)

lemma collect_low_energy: "energy g < 1 \<Longrightarrow> \<exists>e. collectArtifact a g = (Inl e, g)"
  by (auto simp: collectArtifact_def Let_def split: option.splits)

lemma decode_low_energy:
  "energy g < (if ''signal_scanner'' \<in> set (artifacts g) then 1 else 2) \<Longrightarrow>
     \<exists>e. decodeSignal a b g = (Inl e, g)"
  by (auto simp: decodeSignal_def decodeCost_def Let_def split: option.splits)

lemma analyze_low_energy:
  "area g (position g) = Some cur \<Longrightarrow>
   energy g < (if ''vibration_analyzer'' \<in> set (artifacts g) \<and>
                  (\<exists>s \<in> set (signals cur). str_includes s ''harmonic'' \<or> str_includes s ''Gamma'')
               then 0 else 1) \<Longrightarrow>
     \<exists>e. analyzeClue a g = (Inl e, g)"
  by (auto simp: analyzeClue_def Let_def list_ex_iff split: option.splits)

lemma decode_cost:
  "fst (decodeSignal a b g) = Inr p \<Longrightarrow>
     energy (snd (decodeSignal a b g)) =
       energy g - (if ''signal_scanner'' \<in> set (artifacts g) then 1 else 2)"
  by (auto simp: decodeSignal_def decodeCost_def Let_def split: option.splits if_splits)

lemma analyze_cost:
  "fst (analyzeClue a g) = Inr p \<Longrightarrow>
     \<exists>cur. area g (position g) = Some cur \<and>
     energy (snd (analyzeClue a g)) =
       energy g - (if ''vibration_analyzer'' \<in> set (artifacts g) \<and>
                  (\<exists>s \<in> set (signals cur). str_includes s ''harmonic'' \<or> str_includes s ''Gamma'')
               then 0 else 1)"
  by (auto simp: analyzeClue_def Let_def list_ex_iff split: option.splits if_splits)

lemma finalize_iff:
  "(\<exists>p. fst (finalizeDiscovery h g) = Inr p) \<longleftrightarrow>
     (position g = ''signal_source'' \<and> 3 \<le> length (decodedSignals g))"
  by (auto simp: finalizeDiscovery_def Let_def)

lemma finalize_fail:
  "fst (finalizeDiscovery h g) = Inl e \<Longrightarrow>
     snd (finalizeDiscovery h g) = g\<lparr>stepCount := stepCount g + 1\<rparr>"
  by (auto simp: finalizeDiscovery_def Let_def split: if_splits)

lemma finalize_ok:
  "fst (finalizeDiscovery h g) = Inr p \<Longrightarrow>
     snd (finalizeDiscovery h g) = g\<lparr>stepCount := stepCount g + 1, completed := True,
        score := score g + 500, bonusesEarned := bonusesEarned g @ [''omega_revelation'']\<rparr>"
  by (auto simp: finalizeDiscovery_def Let_def split: if_splits)

lemma completed_irrelevant:
  "fst (execute a (g\<lparr>completed := b\<rparr>)) = fst (execute a g) \<and>
   (snd (execute a (g\<lparr>completed := b\<rparr>)))\<lparr>completed := c\<rparr> = (snd (execute a g))\<lparr>completed := c\<rparr>"
  by (cases a) (auto simp: tool_defs Let_def decodeCost_def findClue_def split: option.splits)


lemma move_score:
  "score (snd (moveToArea x g)) = score g \<or>
   (\<exists>p. fst (moveToArea x g) = Inr p) \<and> \<not> isExplored g x"
  by (auto simp: moveToArea_def Let_def isExplored_def split: option.splits)

lemma failed_keeps_score: "fst (execute a g) = Inl e \<Longrightarrow> score (snd (execute a g)) = score g"
  by (cases a) (auto simp: tool_defs Let_def split: option.splits if_splits)

subsection \<open>Values of the concrete playthroughs\<close>

lemma ready_facts:
  "position ready = ''signal_source''"
  "length (decodedSignals ready) = 3"
  "score ready = 510"
  "energy ready = 10"
  "stepCount ready = 12"
  "completed ready = False"
  "fst (finalizeDiscovery ''omega'' ready) = Inr (Finalized 1010 100)"
  by code_simp+

lemma finished_facts:
  "score finished = 1010"
  "energy finished = 10"
  "stepCount finished = 13"
  "fst (finalizeDiscovery ''again'' finished) = Inr (Finalized 1510 100)"
  by code_simp+

lemma reachable_ready: "reachable ready"
  unfolding ready_def by (rule reachable_run[OF reach_init])

lemma reachable_finished: "reachable finished"
  unfolding finished_def by (rule reach_step[OF reachable_ready])

lemma with_crystal_facts:
  "score with_crystal = 15"
  "fst (execute UseEnergyCrystal with_crystal) = Inr CrystalUsed"
  by code_simp+

lemma paired_facts:
  "fst (decodeSignal ''basic_frequency'' ''harmonic_sequence'' paired) =
     Inr (Decoded \<lparr>decoded = ''Alpha-Gamma Harmonic Link'', recipe_value = 100,
                   bonus = ''pattern_chain''\<rparr> 2)"
  "artifacts paired = []"
  "energy paired = 27"
  "energy paired_later = 24"
  "decodeCost paired_later = 2"
  "signalName ''basic_frequency: retry'' = signalName ''basic_frequency''"
  by code_simp+

lemma drained_facts:
  "energy drained = 0"
  "artifacts drained = []"
  "area drained ''signal_source'' =
     Some \<lparr>area_artifacts = [''master_artifact''],
           signals = [''core_transmission: Omega core - integrates all patterns, solve with combined clues''],
           connections = [''underground_caverns'', ''hidden_lake''],
           riskLevel = very_high, explored = True\<rparr>"
  "area drained (position drained) =
     Some \<lparr>area_artifacts = [''water_sampler'', ''aquatic_artifact''],
           signals = [''wave_ripple: Epsilon ripples - combines gamma and alpha, averages values''],
           connections = [''crystal_forest'', ''signal_source''],
           riskLevel = medium, explored = True\<rparr>"
  by code_simp+

text \<open>
  With energy to spare, each of the four requests made in \<open>drained\<close> below is accepted:
  the area is connected, the artifact is there, the signal is there and not yet
  analyzed, the pair is gathered and not yet decoded.
\<close>

lemma drained_requests_valid:
  "fst (moveToArea ''signal_source'' (drained\<lparr>energy := 10\<rparr>)) = Inr (Moved ''signal_source'' None)"
  "fst (collectArtifact ''water_sampler'' (drained\<lparr>energy := 10\<rparr>)) =
     Inr (Collected ''water_sampler'' 25)"
  "fst (analyzeClue ''wave_ripple'' (drained\<lparr>energy := 10\<rparr>)) =
     Inr (Analyzed ''wave_ripple: Epsilon ripples - combines gamma and alpha, averages values'' 1)"
  "fst (decodeSignal ''basic_frequency'' ''harmonic_sequence'' (drained\<lparr>energy := 10\<rparr>)) =
     Inr (Decoded \<lparr>decoded = ''Alpha-Gamma Harmonic Link'', recipe_value = 100,
                   bonus = ''pattern_chain''\<rparr> 2)"
  by code_simp+

lemma reachable_drained: "reachable drained"
  unfolding drained_def by (rule reachable_run[OF reach_init])

lemma geared_facts:
  "artifacts geared = [''signal_scanner'', ''vibration_analyzer'']"
  "energy geared = 26"
  "area geared (position geared) =
     Some \<lparr>area_artifacts = [''crystal_shard''],
           signals = [''harmonic_sequence: Gamma harmonics - builds on alpha, multiplies by 1.5''],
           connections = [''landing_zone'', ''hidden_lake'', ''ancient_ruins''],
           riskLevel = low, explored = True\<rparr>"
  "fst (analyzeClue ''harmonic_sequence'' geared) =
     Inr (Analyzed ''harmonic_sequence: Gamma harmonics - builds on alpha, multiplies by 1.5'' 0)"
  "artifacts geared_analyzed = [''signal_scanner'', ''vibration_analyzer'']"
  "energy geared_analyzed = 26"
  "fst (decodeSignal ''basic_frequency'' ''harmonic_sequence'' geared_analyzed) =
     Inr (Decoded \<lparr>decoded = ''Alpha-Gamma Harmonic Link'', recipe_value = 100,
                   bonus = ''pattern_chain''\<rparr> 1)"
  by code_simp+

lemma init_facts:
  "energy init = 30"
  "score init = 0"
  "artifacts init = []"
  "area init ''volcanic_plains'' =
     Some \<lparr>area_artifacts = [''heat_resistant_probe'', ''lava_sample''],
           signals = [''interference_pattern: Beta spikes - correlates with heat sources, offset by 2''],
           connections = [''landing_zone'', ''underground_caverns'', ''ancient_ruins''],
           riskLevel = medium, explored = False\<rparr>"
  "area init (position init) =
     Some \<lparr>area_artifacts = [''signal_scanner'', ''energy_crystal''],
           signals = [''basic_frequency: Alpha waves detected - pattern repeats every 3 units''],
           connections = [''volcanic_plains'', ''crystal_forest''],
           riskLevel = low, explored = True\<rparr>"
  "fst (moveToArea ''volcanic_plains'' init) = Inr (Moved ''volcanic_plains'' (Some 20))"
  "fst (analyzeClue ''basic_frequency'' init) =
     Inr (Analyzed ''basic_frequency: Alpha waves detected - pattern repeats every 3 units'' 1)"
  "fst (finalizeDiscovery ''too early'' init) = Inl NotAtSource"
  by code_simp+

lemma scenario_A:
  "energy (snd (moveToArea ''volcanic_plains'' init)) = 28"
  "score (snd (moveToArea ''volcanic_plains'' init)) = score init + 20"
  "isExplored (snd (moveToArea ''volcanic_plains'' init)) ''volcanic_plains''"
  "\<not> isExplored init ''volcanic_plains''"
  by code_simp+

lemma back_home_facts:
  "energy back_home = 27"
  "score back_home = 20"
  "stepCount back_home = 2"
  "area back_home ''volcanic_plains'' =
     Some \<lparr>area_artifacts = [''heat_resistant_probe'', ''lava_sample''],
           signals = [''interference_pattern: Beta spikes - correlates with heat sources, offset by 2''],
           connections = [''landing_zone'', ''underground_caverns'', ''ancient_ruins''],
           riskLevel = medium, explored = True\<rparr>"
  "fst (moveToArea ''volcanic_plains'' back_home) = Inr (Moved ''volcanic_plains'' None)"
  by code_simp+

section \<open>Facts about decoding\<close>

text \<open>
  A recipe key has one \<open>+\<close>, so it splits into its two names in one way only; no key of
  \<open>signal_db\<close> is another key with its two names swapped.
\<close>

lemma plus_split_unique:
  "CHR ''+'' \<notin> set A \<Longrightarrow> CHR ''+'' \<notin> set B \<Longrightarrow> n1 @ CHR ''+'' # n2 = A @ CHR ''+'' # B
     \<Longrightarrow> n1 = A \<and> n2 = B"
  by (induction A arbitrary: n1) (auto simp: Cons_eq_append_conv append_eq_Cons_conv)

lemma signal_db_one_way:
  assumes "map_of signal_db (n1 @ ''+'' @ n2) = Some r"
  shows "map_of signal_db (n2 @ ''+'' @ n1) = None"
proof -
  have "(n1 @ ''+'' @ n2, r) \<in> set signal_db" using assms by (rule map_of_SomeD)
  then consider
      "n1 @ CHR ''+'' # n2 = ''basic_frequency'' @ CHR ''+'' # ''harmonic_sequence''"
    | "n1 @ CHR ''+'' # n2 = ''interference_pattern'' @ CHR ''+'' # ''echo_code''"
    | "n1 @ CHR ''+'' # n2 = ''wave_ripple'' @ CHR ''+'' # ''symbol_cipher''"
    | "n1 @ CHR ''+'' # n2 = ''basic_frequency'' @ CHR ''+'' # ''interference_pattern''"
    | "n1 @ CHR ''+'' # n2 = ''harmonic_sequence'' @ CHR ''+'' # ''wave_ripple''"
    | "n1 @ CHR ''+'' # n2 = ''echo_code'' @ CHR ''+'' # ''symbol_cipher''"
    unfolding signal_db_def by auto
  then show ?thesis
  proof cases
    case 1
    have "n1 = ''basic_frequency'' \<and> n2 = ''harmonic_sequence''"
      by (rule plus_split_unique[OF _ _ 1]) simp_all
    then show ?thesis by (simp add: signal_db_def)
  next
    case 2
    have "n1 = ''interference_pattern'' \<and> n2 = ''echo_code''"
      by (rule plus_split_unique[OF _ _ 2]) simp_all
    then show ?thesis by (simp add: signal_db_def)
  next
    case 3
    have "n1 = ''wave_ripple'' \<and> n2 = ''symbol_cipher''"
      by (rule plus_split_unique[OF _ _ 3]) simp_all
    then show ?thesis by (simp add: signal_db_def)
  next
    case 4
    have "n1 = ''basic_frequency'' \<and> n2 = ''interference_pattern''"
      by (rule plus_split_unique[OF _ _ 4]) simp_all
    then show ?thesis by (simp add: signal_db_def)
  next
    case 5
    have "n1 = ''harmonic_sequence'' \<and> n2 = ''wave_ripple''"
      by (rule plus_split_unique[OF _ _ 5]) simp_all
    then show ?thesis by (simp add: signal_db_def)
  next
    case 6
    have "n1 = ''echo_code'' \<and> n2 = ''symbol_cipher''"
      by (rule plus_split_unique[OF _ _ 6]) simp_all
    then show ?thesis by (simp add: signal_db_def)
  qed
qed

lemma recipeFor_commute: "recipeFor c1 c2 = recipeFor c2 c1"
proof -
  let ?k1 = "signalName c1 @ ''+'' @ signalName c2"
  let ?k2 = "signalName c2 @ ''+'' @ signalName c1"
  show ?thesis
  proof (cases "map_of signal_db ?k1")
    case None
    then show ?thesis by (simp add: recipeFor_def orElse_def split: option.splits)
  next
    case (Some r)
    then have "map_of signal_db ?k2 = None" by (rule signal_db_one_way)
    with Some show ?thesis by (simp add: recipeFor_def orElse_def)
  qed
qed

text \<open>Gathered clues and decoded keys are only ever appended to.\<close>

lemma find_append_Some: "find P xs = Some x \<Longrightarrow> find P (xs @ ys) = Some x"
  by (induction xs) (auto split: if_splits)

lemma findClue_same_name:
  assumes "signalName a' = signalName a"
  shows "findClue g a' = findClue g a"
proof -
  have "(\<lambda>clue. signalName clue = signalName a' \<or> clue = a')
      = (\<lambda>clue. signalName clue = signalName a \<or> clue = a)"
    using assms by auto
  then show ?thesis by (simp add: findClue_def)
qed

lemma gathered_step: "\<exists>ys. gatheredClues (snd (execute a g)) = gatheredClues g @ ys"
  by (cases a) (auto simp: tool_defs Let_def split: option.splits)

lemma findClue_step: "findClue g x = Some c \<Longrightarrow> findClue (snd (execute a g)) x = Some c"
  using gathered_step[of a g] by (auto simp: findClue_def find_append_Some)

lemma findClue_run: "findClue g x = Some c \<Longrightarrow> findClue (run acts g) x = Some c"
  by (induction acts arbitrary: g) (auto simp: findClue_step)

lemma decoded_step:
  "k \<in> set (decodedSignals g) \<Longrightarrow> k \<in> set (decodedSignals (snd (execute a g)))"
  by (cases a) (auto simp: tool_defs Let_def split: option.splits)

lemma decoded_run: "k \<in> set (decodedSignals g) \<Longrightarrow> k \<in> set (decodedSignals (run acts g))"
  by (induction acts arbitrary: g) (auto simp: decoded_step)

lemma decode_success:
  assumes "fst (decodeSignal a b g) = Inr p"
  shows "\<exists>c1 c2 r. findClue g a = Some c1 \<and> findClue g b = Some c2 \<and> c1 \<noteq> [] \<and> c2 \<noteq> []
     \<and> recipeFor c1 c2 = Some r \<and> p = Decoded r (decodeCost g)
     \<and> c1 @ ''+'' @ c2 \<notin> set (decodedSignals g) \<and> c2 @ ''+'' @ c1 \<notin> set (decodedSignals g)
     \<and> snd (decodeSignal a b g) =
         g\<lparr>energy := energy g - decodeCost g, stepCount := stepCount g + 1,
           decodedSignals := decodedSignals g @ [c1 @ ''+'' @ c2],
           score := score g + recipe_value r, bonusesEarned := bonusesEarned g @ [bonus r]\<rparr>"
  using assms by (auto simp: decodeSignal_def Let_def split: option.splits if_splits)

lemma decode_again:
  assumes "findClue g' x = Some c1" "findClue g' y = Some c2" "c1 \<noteq> []" "c2 \<noteq> []"
    and "recipeFor c1 c2 = Some r"
    and "c1 @ ''+'' @ c2 \<in> set (decodedSignals g') \<or> c2 @ ''+'' @ c1 \<in> set (decodedSignals g')"
  shows "decodeSignal x y g' =
     (Inl (if energy g' < decodeCost g' then InsufficientEnergy (decodeCost g') (energy g')
           else AlreadyDecoded), g')"
  using assms by (simp add: decodeSignal_def Let_def)

lemma decode_once:
  assumes ok: "fst (decodeSignal a b g) = Inr p"
    and later: "g' = run acts (snd (decodeSignal a b g))"
    and names: "signalName a' = signalName a" "signalName b' = signalName b"
  shows "decodeSignal a' b' g' =
           (Inl (if energy g' < decodeCost g' then InsufficientEnergy (decodeCost g') (energy g')
                 else AlreadyDecoded), g')
       \<and> decodeSignal b' a' g' =
           (Inl (if energy g' < decodeCost g' then InsufficientEnergy (decodeCost g') (energy g')
                 else AlreadyDecoded), g')"
proof -
  from decode_success[OF ok] obtain c1 c2 r where
    f: "findClue g a = Some c1" "findClue g b = Some c2" and ne: "c1 \<noteq> []" "c2 \<noteq> []"
    and r: "recipeFor c1 c2 = Some r"
    and s: "snd (decodeSignal a b g) =
         g\<lparr>energy := energy g - decodeCost g, stepCount := stepCount g + 1,
           decodedSignals := decodedSignals g @ [c1 @ ''+'' @ c2],
           score := score g + recipe_value r, bonusesEarned := bonusesEarned g @ [bonus r]\<rparr>"
    by (elim exE conjE)
  let ?g1 = "snd (decodeSignal a b g)"
  have g1: "findClue ?g1 a = Some c1" "findClue ?g1 b = Some c2"
    using f by (simp_all add: findClue_def s)
  have "findClue g' a = Some c1" "findClue g' b = Some c2"
    unfolding later by (simp_all add: findClue_run[OF g1(1)] findClue_run[OF g1(2)])
  then have f': "findClue g' a' = Some c1" "findClue g' b' = Some c2"
    using findClue_same_name[OF names(1), of g'] findClue_same_name[OF names(2), of g']
    by simp_all
  have "c1 @ ''+'' @ c2 \<in> set (decodedSignals ?g1)" by (simp add: s)
  then have k: "c1 @ ''+'' @ c2 \<in> set (decodedSignals g')"
    unfolding later by (rule decoded_run)
  have r': "recipeFor c2 c1 = Some r" using r recipeFor_commute[of c1 c2] by simp
  have "decodeSignal a' b' g' =
           (Inl (if energy g' < decodeCost g' then InsufficientEnergy (decodeCost g') (energy g')
                 else AlreadyDecoded), g')"
    using k by (intro decode_again[OF f' ne r]) simp
  moreover have "decodeSignal b' a' g' =
           (Inl (if energy g' < decodeCost g' then InsufficientEnergy (decodeCost g') (energy g')
                 else AlreadyDecoded), g')"
    using k by (intro decode_again[OF f'(2) f'(1) ne(2) ne(1) r']) simp
  ultimately show ?thesis by (rule conjI)
qed

section \<open>Facts about the travel game\<close>

lemma cityScore_acc:
  "\<forall>c \<in> set vs. map_of cities c \<noteq> None \<Longrightarrow>
     cityScore vs acc = Some (acc + (\<Sum>city \<leftarrow> vs. valueOf city))"
  by (induction vs arbitrary: acc) (auto simp: valueOf_def)

lemma floor_div100: "\<lfloor>real_of_int b / 100\<rfloor> = b div 100"
  by (simp add: floor_divide_of_int_eq[of b 100, simplified])

lemma travel_score_spec:
  "\<forall>c \<in> set (visitedCities g). map_of cities c \<noteq> None \<Longrightarrow>
     travel_getFinalScore g = Some (spec_travel_score g)"
  by (auto simp: travel_getFinalScore_def spec_travel_score_def cityScore_acc
      requiredCities_def floor_div100 Let_def)

text \<open>
  Every route, from every listed state: checked by evaluation. The budget check stands
  before the step check in \<open>travel\<close>, and on every route that would pass the step limit
  the budget is already too small.
\<close>

lemma all_routes_ok: "list_all (\<lambda>st. list_all (route_ok st) routes) travel_states"
  by code_simp

lemma route_ok_inv:
  assumes "travel_inv g" "map_of routes k = Some r"
  shows "route_ok (currentCity g, travel_stepCount g, budget g) (k, r)"
proof -
  have "(k, r) \<in> set routes" using assms(2) by (rule map_of_SomeD)
  moreover have "(currentCity g, travel_stepCount g, budget g) \<in> set travel_states"
    using assms(1) by (simp add: travel_inv_def)
  ultimately show ?thesis using all_routes_ok by (auto simp: list_all_iff)
qed

lemma travel_inv_step:
  assumes "travel_inv g"
  shows "travel_inv (snd (travel k g)) \<and> (\<forall>n m. fst (travel k g) \<noteq> Inl (NotEnoughSteps n m))"
proof (cases "map_of routes k")
  case None
  then show ?thesis using assms by (simp add: travel_def)
next
  case (Some r)
  from route_ok_inv[OF assms Some] assms Some show ?thesis
    by (auto simp: route_ok_def travel_def Let_def TRAVEL_MAX_STEPS_def travel_inv_def
        split: option.splits)
qed

lemma travel_inv_execute: "travel_inv g \<Longrightarrow> travel_inv (snd (travel_execute a g))"
  by (cases a) (auto simp: travel_inv_step checkRoutes_def planRoute_def Let_def split: option.splits)

lemma travel_inv_init: "travel_inv travel_init"
  by (simp add: travel_inv_def travel_init_def travel_states_def cities_def)

lemma travel_reachable_inv: "travel_reachable g \<Longrightarrow> travel_inv g"
  by (induction rule: travel_reachable.induct) (auto simp: travel_inv_init travel_inv_execute)





lemma startsWith_set: "startsWith s p \<Longrightarrow> set p \<subseteq> set s"
  by (induction s p rule: startsWith.induct) auto

lemma inherited_key_wrong_start:
  assumes "k \<in> set object_prototype_keys"
  shows "\<not> startsWith k (c @ ''-'')"
proof
  assume "startsWith k (c @ ''-'')"
  then have "CHR ''-'' \<in> set k" using startsWith_set by fastforce
  then show False using assms unfolding object_prototype_keys_def by auto
qed





section \<open>Decoding a pair\<close>

text \<open>
  C1 says that once a pair is decoded, every later attempt on it is rejected as already
  decoded. The energy check of \<^verbatim>\<open>decodeSignal\<close> comes first: in \<open>low_energy\<close>, reached
  from the initial state with 2 energy left and no scanner, the first decode succeeds
  and leaves 0 energy, and the second attempt (in the other order) is rejected for
  insufficient energy, not as already decoded.
\<close>

theorem decode_retry_without_energy_counterexample:
  "fst (decodeSignal ''basic_frequency'' ''harmonic_sequence'' low_energy) =
     Inr (Decoded \<lparr>decoded = ''Alpha-Gamma Harmonic Link'', recipe_value = 100,
                   bonus = ''pattern_chain''\<rparr> 2)
   \<and> fst (decodeSignal ''harmonic_sequence'' ''basic_frequency''
          (snd (decodeSignal ''basic_frequency'' ''harmonic_sequence'' low_energy))) =
     Inl (InsufficientEnergy 2 0)
   \<and> fst (decodeSignal ''harmonic_sequence'' ''basic_frequency''
          (snd (decodeSignal ''basic_frequency'' ''harmonic_sequence'' low_energy))) \<noteq>
     Inl AlreadyDecoded"
  by code_simp

text \<open>
  C1, amended. The recipe lookup is commutative: for any two clues, the lookup in one
  order gives the same recipe (or none) as in the other. Once a decode of two names has
  succeeded, then after any further run of actions a decode of the same two names
  (given by any inputs with the same short names, in either order) is rejected and
  leaves the game unchanged: as already decoded when the energy covers the decode cost,
  and for insufficient energy otherwise.
\<close>

theorem decode_commutative_once:
  "recipeFor c1 c2 = recipeFor c2 c1
   \<and> (fst (decodeSignal a b g) = Inr p \<longrightarrow>
      signalName a' = signalName a \<longrightarrow> signalName b' = signalName b \<longrightarrow>
        (let g' = run acts (snd (decodeSignal a b g));
             rejection = (if energy g' < decodeCost g'
                          then InsufficientEnergy (decodeCost g') (energy g')
                          else AlreadyDecoded)
         in decodeSignal a' b' g' = (Inl rejection, g')
            \<and> decodeSignal b' a' g' = (Inl rejection, g')))"
proof (intro conjI impI)
  show "recipeFor c1 c2 = recipeFor c2 c1" by (rule recipeFor_commute)
next
  assume ok: "fst (decodeSignal a b g) = Inr p"
    and names: "signalName a' = signalName a" "signalName b' = signalName b"
  show "let g' = run acts (snd (decodeSignal a b g));
             rejection = (if energy g' < decodeCost g'
                          then InsufficientEnergy (decodeCost g') (energy g')
                          else AlreadyDecoded)
         in decodeSignal a' b' g' = (Inl rejection, g')
            \<and> decodeSignal b' a' g' = (Inl rejection, g')"
    unfolding Let_def by (rule decode_once[OF ok refl names])
qed

theorem decode_commutative_once_witness:
  "decodeSignal ''basic_frequency: retry'' ''harmonic_sequence'' paired_later =
     (Inl AlreadyDecoded, paired_later)
   \<and> decodeSignal ''harmonic_sequence'' ''basic_frequency: retry'' paired_later =
     (Inl AlreadyDecoded, paired_later)"
  using decode_commutative_once[where a = "''basic_frequency''" and b = "''harmonic_sequence''"
      and g = paired and a' = "''basic_frequency: retry''" and b' = "''harmonic_sequence''"
      and acts = "[MoveToArea ''landing_zone'']"
      and p = "Decoded \<lparr>decoded = ''Alpha-Gamma Harmonic Link'', recipe_value = 100,
                   bonus = ''pattern_chain''\<rparr> 2"]
    paired_facts
  by (simp add: paired_later_def Let_def)

section \<open>The energy pool\<close>

text \<open>
  C2. When the energy is below the cost of a move, a collect, an analyze or a decode (the
  cost after the artifact modifiers), the action returns an error and the game is
  unchanged. In every reachable state the energy is not negative.
\<close>

theorem energy_never_negative:
  "(area g a = Some t \<longrightarrow> energy g < riskCosts (riskLevel t) \<longrightarrow>
      (\<exists>e. moveToArea a g = (Inl e, g)))
   \<and> (energy g < 1 \<longrightarrow> (\<exists>e. collectArtifact x g = (Inl e, g)))
   \<and> (area g (position g) = Some cur \<longrightarrow>
       energy g < (if ''vibration_analyzer'' \<in> set (artifacts g) \<and>
                      (\<exists>s \<in> set (signals cur).
                          str_includes s ''harmonic'' \<or> str_includes s ''Gamma'')
                   then 0 else 1) \<longrightarrow>
      (\<exists>e. analyzeClue s g = (Inl e, g)))
   \<and> (energy g < (if ''signal_scanner'' \<in> set (artifacts g) then 1 else 2) \<longrightarrow>
      (\<exists>e. decodeSignal s1 s2 g = (Inl e, g)))
   \<and> (reachable g \<longrightarrow> 0 \<le> energy g)"
  using move_low_energy[of g a t] collect_low_energy[of g x] analyze_low_energy[of g cur s]
    decode_low_energy[of g s1 s2] reachable_energy[of g]
  by blast

theorem energy_never_negative_witness:
  "energy drained = 0
   \<and> (\<exists>e. moveToArea ''signal_source'' drained = (Inl e, drained))
   \<and> (\<exists>e. collectArtifact ''water_sampler'' drained = (Inl e, drained))
   \<and> (\<exists>e. analyzeClue ''wave_ripple'' drained = (Inl e, drained))
   \<and> (\<exists>e. decodeSignal ''basic_frequency'' ''harmonic_sequence'' drained = (Inl e, drained))
   \<and> 0 \<le> energy drained"
  using energy_never_negative[where g = drained and a = "''signal_source''"
      and t = "\<lparr>area_artifacts = [''master_artifact''],
           signals = [''core_transmission: Omega core - integrates all patterns, solve with combined clues''],
           connections = [''underground_caverns'', ''hidden_lake''],
           riskLevel = very_high, explored = True\<rparr>"
      and cur = "\<lparr>area_artifacts = [''water_sampler'', ''aquatic_artifact''],
           signals = [''wave_ripple: Epsilon ripples - combines gamma and alpha, averages values''],
           connections = [''crystal_forest'', ''signal_source''],
           riskLevel = medium, explored = True\<rparr>"
      and x = "''water_sampler''" and s = "''wave_ripple''"
      and ?s1.0 = "''basic_frequency''" and ?s2.0 = "''harmonic_sequence''"]
    drained_facts reachable_drained
  by simp

section \<open>Finalization\<close>

text \<open>
  C3. \<^verbatim>\<open>finalizeDiscovery\<close> succeeds exactly when the position is \<^verbatim>\<open>signal_source\<close> and
  at least three pairs are decoded. When it fails, the game is left as it was except
  for the step counter, which is one higher (so the completed flag is not set). When it
  succeeds, the completed flag is set, and it is still set after any further run of
  actions.
\<close>

theorem finalize_guarded_terminal:
  "((\<exists>p. fst (finalizeDiscovery h g) = Inr p) \<longleftrightarrow>
      (position g = ''signal_source'' \<and> 3 \<le> length (decodedSignals g)))
   \<and> (fst (finalizeDiscovery h g) = Inl e \<longrightarrow>
         snd (finalizeDiscovery h g) = g\<lparr>stepCount := stepCount g + 1\<rparr>)
   \<and> (fst (finalizeDiscovery h g) = Inr p \<longrightarrow>
         completed (snd (finalizeDiscovery h g))
         \<and> completed (run acts (snd (finalizeDiscovery h g))))"
proof (intro conjI impI)
  show "(\<exists>p. fst (finalizeDiscovery h g) = Inr p) \<longleftrightarrow>
      (position g = ''signal_source'' \<and> 3 \<le> length (decodedSignals g))"
    by (rule finalize_iff)
next
  assume "fst (finalizeDiscovery h g) = Inl e"
  then show "snd (finalizeDiscovery h g) = g\<lparr>stepCount := stepCount g + 1\<rparr>"
    by (rule finalize_fail)
next
  assume ok: "fst (finalizeDiscovery h g) = Inr p"
  show c: "completed (snd (finalizeDiscovery h g))"
    by (simp add: finalize_ok[OF ok])
  show "completed (run acts (snd (finalizeDiscovery h g)))"
    using c by (rule completed_run)
qed

theorem finalize_guarded_terminal_witness:
  "snd (finalizeDiscovery ''too early'' init) = init\<lparr>stepCount := stepCount init + 1\<rparr>
   \<and> completed (snd (finalizeDiscovery ''too early'' init)) = False
   \<and> completed (snd (finalizeDiscovery ''omega'' ready))
   \<and> completed (run [MoveToArea ''hidden_lake'', ExploreConnections]
        (snd (finalizeDiscovery ''omega'' ready)))"
proof -
  have early: "fst (finalizeDiscovery ''too early'' init) = Inl NotAtSource"
    by code_simp
  have flag: "completed init = False"
    by (simp add: init_def)
  show ?thesis
    using finalize_guarded_terminal[where h = "''too early''" and g = init and e = NotAtSource
        and acts = "[]"]
      finalize_guarded_terminal[where h = "''omega''" and g = ready
        and p = "Finalized 1010 100"
        and acts = "[MoveToArea ''hidden_lake'', ExploreConnections]"]
      early flag ready_facts(7)
    by simp
qed

section \<open>The exploration bonus\<close>

text \<open>
  C4. Every reachable state is the end of a run \<open>hist\<close> of actions from \<open>init\<close>. A
  successful move into an area that the run has not entered before, and that is not the
  start area, is the first entry: it marks the area explored, adds ten times the entry
  cost to the score, deducts the cost and counts a step. A successful move into an area
  that the run has entered before, or into the start area, deducts the cost and counts a
  step, and changes nothing else: the bonus is given once per area. In every reachable
  state the explored areas are those of the list \<open>exploredAreas\<close>. The same two cases in
  terms of the explored flag hold in every state, and after one successful entry a later
  successful entry, after any run of actions, leaves the score as it is. Scenario A:
  from the initial state (30 energy) the move to \<^verbatim>\<open>volcanic_plains\<close>, of medium risk,
  leaves 28 energy, adds 20 to the score and marks the area explored.
\<close>

theorem exploration_bonus_once:
  "(g = run hist init \<longrightarrow> a \<noteq> ''landing_zone'' \<longrightarrow> \<not> entered hist init a \<longrightarrow>
    fst (moveToArea a g) = Inr p \<longrightarrow>
      (\<exists>t. area g a = Some t \<and> p = Moved a (Some (riskCosts (riskLevel t) * 10)) \<and>
           snd (moveToArea a g) =
             g\<lparr>energy := energy g - riskCosts (riskLevel t), stepCount := stepCount g + 1,
               position := a, area := (area g)(a \<mapsto> t\<lparr>explored := True\<rparr>),
               exploredAreas := exploredAreas g @ [a],
               score := score g + riskCosts (riskLevel t) * 10\<rparr>))
   \<and> (g = run hist init \<longrightarrow> a = ''landing_zone'' \<or> entered hist init a \<longrightarrow>
      fst (moveToArea a g) = Inr p \<longrightarrow>
      (\<exists>t. area g a = Some t \<and> p = Moved a None \<and>
           snd (moveToArea a g) =
             g\<lparr>energy := energy g - riskCosts (riskLevel t), stepCount := stepCount g + 1,
               position := a\<rparr>))
   \<and> (reachable g \<longleftrightarrow> (\<exists>h. g = run h init))
   \<and> (reachable g \<longrightarrow> (isExplored g a \<longleftrightarrow> a \<in> set (exploredAreas g)))
   \<and> (area g a = Some t \<longrightarrow> \<not> explored t \<longrightarrow> fst (moveToArea a g) = Inr p \<longrightarrow>
      snd (moveToArea a g) =
        g\<lparr>energy := energy g - riskCosts (riskLevel t), stepCount := stepCount g + 1,
          position := a, area := (area g)(a \<mapsto> t\<lparr>explored := True\<rparr>),
          exploredAreas := exploredAreas g @ [a],
          score := score g + riskCosts (riskLevel t) * 10\<rparr>)
   \<and> (area g a = Some t \<longrightarrow> explored t \<longrightarrow> fst (moveToArea a g) = Inr p \<longrightarrow>
      snd (moveToArea a g) =
        g\<lparr>energy := energy g - riskCosts (riskLevel t), stepCount := stepCount g + 1,
          position := a\<rparr>)
   \<and> (fst (moveToArea a g) = Inr p \<longrightarrow>
      fst (moveToArea a (run acts (snd (moveToArea a g)))) = Inr q \<longrightarrow>
        score (snd (moveToArea a (run acts (snd (moveToArea a g)))))
          = score (run acts (snd (moveToArea a g))))
   \<and> (energy init = 30
      \<and> fst (moveToArea ''volcanic_plains'' init) = Inr (Moved ''volcanic_plains'' (Some 20))
      \<and> energy (snd (moveToArea ''volcanic_plains'' init)) = 28
      \<and> score (snd (moveToArea ''volcanic_plains'' init)) = score init + 20
      \<and> isExplored (snd (moveToArea ''volcanic_plains'' init)) ''volcanic_plains'')"
proof (intro conjI impI)
  assume g: "g = run hist init" and new: "a \<noteq> ''landing_zone''" "\<not> entered hist init a"
    and ok: "fst (moveToArea a g) = Inr p"
  have "\<not> isExplored g a" using new by (simp add: g explored_from_init)
  then show "\<exists>t. area g a = Some t \<and> p = Moved a (Some (riskCosts (riskLevel t) * 10)) \<and>
           snd (moveToArea a g) =
             g\<lparr>energy := energy g - riskCosts (riskLevel t), stepCount := stepCount g + 1,
               position := a, area := (area g)(a \<mapsto> t\<lparr>explored := True\<rparr>),
               exploredAreas := exploredAreas g @ [a],
               score := score g + riskCosts (riskLevel t) * 10\<rparr>"
    using ok by (rule first_entry)
next
  assume g: "g = run hist init" and old: "a = ''landing_zone'' \<or> entered hist init a"
    and ok: "fst (moveToArea a g) = Inr p"
  have "isExplored g a" using old by (simp add: g explored_from_init)
  then show "\<exists>t. area g a = Some t \<and> p = Moved a None \<and>
           snd (moveToArea a g) =
             g\<lparr>energy := energy g - riskCosts (riskLevel t), stepCount := stepCount g + 1,
               position := a\<rparr>"
    using ok by (rule later_entry)
next
  show "reachable g \<longleftrightarrow> (\<exists>h. g = run h init)" by (rule reachable_is_run)
next
  assume "reachable g"
  then show "isExplored g a \<longleftrightarrow> a \<in> set (exploredAreas g)" by (rule reachable_exploredAreas)
next
  assume "area g a = Some t" "\<not> explored t" "fst (moveToArea a g) = Inr p"
  then show "snd (moveToArea a g) =
        g\<lparr>energy := energy g - riskCosts (riskLevel t), stepCount := stepCount g + 1,
          position := a, area := (area g)(a \<mapsto> t\<lparr>explored := True\<rparr>),
          exploredAreas := exploredAreas g @ [a],
          score := score g + riskCosts (riskLevel t) * 10\<rparr>"
    by (rule move_unexplored)
next
  assume t: "area g a = Some t" "explored t" and ok: "fst (moveToArea a g) = Inr p"
  have "isExplored g a" using t by (simp add: isExplored_def)
  from move_explored[OF this ok] t(1)
  show "snd (moveToArea a g) =
        g\<lparr>energy := energy g - riskCosts (riskLevel t), stepCount := stepCount g + 1,
          position := a\<rparr>"
    by auto
next
  assume first: "fst (moveToArea a g) = Inr p"
    and again: "fst (moveToArea a (run acts (snd (moveToArea a g)))) = Inr q"
  let ?g' = "run acts (snd (moveToArea a g))"
  have "isExplored ?g' a" using move_marks[OF first] by (rule explored_run)
  from move_explored[OF this again] obtain t :: AreaInfo where
    "snd (moveToArea a ?g') =
       ?g'\<lparr>energy := energy ?g' - riskCosts (riskLevel t), stepCount := stepCount ?g' + 1,
           position := a\<rparr>"
    by (elim exE conjE)
  then show "score (snd (moveToArea a ?g')) = score ?g'" by simp
qed (simp_all add: init_facts scenario_A)

theorem exploration_bonus_once_witness:
  "fst (moveToArea ''volcanic_plains'' init) = Inr (Moved ''volcanic_plains'' (Some 20))
   \<and> energy (snd (moveToArea ''volcanic_plains'' init)) = 28
   \<and> score (snd (moveToArea ''volcanic_plains'' init)) = 20
   \<and> stepCount (snd (moveToArea ''volcanic_plains'' init)) = 1
   \<and> exploredAreas (snd (moveToArea ''volcanic_plains'' init)) =
       [''landing_zone'', ''volcanic_plains'']
   \<and> entered [MoveToArea ''volcanic_plains'', MoveToArea ''landing_zone''] init ''volcanic_plains''
   \<and> fst (moveToArea ''volcanic_plains'' back_home) = Inr (Moved ''volcanic_plains'' None)
   \<and> energy (snd (moveToArea ''volcanic_plains'' back_home)) = 25
   \<and> score (snd (moveToArea ''volcanic_plains'' back_home)) = 20
   \<and> stepCount (snd (moveToArea ''volcanic_plains'' back_home)) = 3"
proof -
  have start: "init = run [] init" "stepCount init = 0" "exploredAreas init = [''landing_zone'']"
    by (simp_all add: init_def)
  have fresh: "\<not> entered [] init ''volcanic_plains''" "''volcanic_plains'' \<noteq> ''landing_zone''"
    by simp_all
  have seen: "entered [MoveToArea ''volcanic_plains'', MoveToArea ''landing_zone''] init
      ''volcanic_plains''"
    by code_simp
  have "\<exists>t. area init ''volcanic_plains'' = Some t \<and>
      Moved ''volcanic_plains'' (Some 20) =
        Moved ''volcanic_plains'' (Some (riskCosts (riskLevel t) * 10)) \<and>
      snd (moveToArea ''volcanic_plains'' init) =
        init\<lparr>energy := energy init - riskCosts (riskLevel t), stepCount := stepCount init + 1,
          position := ''volcanic_plains'',
          area := (area init)(''volcanic_plains'' \<mapsto> t\<lparr>explored := True\<rparr>),
          exploredAreas := exploredAreas init @ [''volcanic_plains''],
          score := score init + riskCosts (riskLevel t) * 10\<rparr>"
    using exploration_bonus_once[where g = init and hist = "[]" and a = "''volcanic_plains''"
        and p = "Moved ''volcanic_plains'' (Some 20)"]
      start(1) fresh init_facts(6)
    by blast
  then obtain t :: AreaInfo where one:
      "area init ''volcanic_plains'' = Some t"
      "snd (moveToArea ''volcanic_plains'' init) =
        init\<lparr>energy := energy init - riskCosts (riskLevel t), stepCount := stepCount init + 1,
          position := ''volcanic_plains'',
          area := (area init)(''volcanic_plains'' \<mapsto> t\<lparr>explored := True\<rparr>),
          exploredAreas := exploredAreas init @ [''volcanic_plains''],
          score := score init + riskCosts (riskLevel t) * 10\<rparr>"
    by (elim exE conjE)
  have t: "riskLevel t = medium" using one(1) init_facts(4) by auto
  have "\<exists>u. area back_home ''volcanic_plains'' = Some u \<and>
      Moved ''volcanic_plains'' None = Moved ''volcanic_plains'' None \<and>
      snd (moveToArea ''volcanic_plains'' back_home) =
        back_home\<lparr>energy := energy back_home - riskCosts (riskLevel u),
          stepCount := stepCount back_home + 1, position := ''volcanic_plains''\<rparr>"
    using exploration_bonus_once[where g = back_home
        and hist = "[MoveToArea ''volcanic_plains'', MoveToArea ''landing_zone'']"
        and a = "''volcanic_plains''" and p = "Moved ''volcanic_plains'' None"]
      back_home_def seen back_home_facts(5)
    by blast
  then obtain u :: AreaInfo where two:
      "area back_home ''volcanic_plains'' = Some u"
      "snd (moveToArea ''volcanic_plains'' back_home) =
        back_home\<lparr>energy := energy back_home - riskCosts (riskLevel u),
          stepCount := stepCount back_home + 1, position := ''volcanic_plains''\<rparr>"
    by (elim exE conjE)
  have u: "riskLevel u = medium" using two(1) back_home_facts(4) by auto
  show ?thesis
    by (simp add: one(2) two(2) t u init_facts(1,2,6) start(2,3) seen back_home_facts(1,2,3,5))
qed

section \<open>What changes the running score\<close>

text \<open>
  C5 says that only exploring, collecting, analyzing and decoding change the running
  score. A successful \<^verbatim>\<open>finalizeDiscovery\<close> changes it too: at the end of the winning
  route the score is 510, and 1010 after finalizing.
\<close>

theorem finalize_changes_score_counterexample:
  "score ready = 510
   \<and> fst (execute (FinalizeDiscovery ''omega'') ready) = Inr (Finalized 1010 100)
   \<and> score (snd (execute (FinalizeDiscovery ''omega'') ready)) = 1010"
  by code_simp

text \<open>
  C5, amended. An action that changes the running score has succeeded and is a move into
  an area that was not explored, a collect, an analyze, a decode, or a finalize, which
  adds the completion bonus of 500. Every other call (a listing of connections, a plan,
  the use of the energy crystal, a move into an explored area, any rejected action)
  leaves the running score as it was.
\<close>

theorem score_changes_only_by_scoring_actions:
  "score (snd (execute a g)) = score g \<or>
   (\<exists>p. fst (execute a g) = Inr p) \<and>
     ((\<exists>x. a = MoveToArea x \<and> \<not> isExplored g x) \<or> (\<exists>x. a = CollectArtifact x) \<or>
      (\<exists>x. a = AnalyzeClue x) \<or> (\<exists>x y. a = DecodeSignal x y) \<or>
      (\<exists>h. a = FinalizeDiscovery h \<and> score (snd (execute a g)) = score g + 500))"
proof (cases "fst (execute a g)")
  case (Inl e)
  then show ?thesis by (simp add: failed_keeps_score)
next
  case (Inr p)
  show ?thesis
  proof (cases a)
    case ExploreConnections
    then show ?thesis by (simp add: exploreConnections_def Let_def split: option.splits)
  next
    case (MoveToArea x)
    then show ?thesis using move_score[of x g] by auto
  next
    case (CollectArtifact x)
    then show ?thesis using Inr by simp
  next
    case (AnalyzeClue x)
    then show ?thesis using Inr by simp
  next
    case (DecodeSignal x y)
    then show ?thesis using Inr by simp
  next
    case UseEnergyCrystal
    then show ?thesis by (simp add: useEnergyCrystal_def)
  next
    case (PlanOptimalRoute moves)
    then show ?thesis by (simp add: planOptimalRoute_def)
  next
    case (FinalizeDiscovery h)
    then have "fst (finalizeDiscovery h g) = Inr p" using Inr by simp
    then show ?thesis using FinalizeDiscovery Inr by (simp add: finalize_ok)
  qed
qed

theorem score_changes_only_by_scoring_actions_witness:
  "score (snd (execute ExploreConnections ready)) = score ready
   \<and> fst (execute UseEnergyCrystal with_crystal) = Inr CrystalUsed
   \<and> score (snd (execute UseEnergyCrystal with_crystal)) = score with_crystal
   \<and> score (snd (execute (PlanOptimalRoute [''go'']) ready)) = score ready
   \<and> score (snd (execute (FinalizeDiscovery ''omega'') ready)) = score ready + 500"
  using score_changes_only_by_scoring_actions[where a = ExploreConnections and g = ready]
    score_changes_only_by_scoring_actions[where a = UseEnergyCrystal and g = with_crystal]
    score_changes_only_by_scoring_actions[where a = "PlanOptimalRoute [''go'']" and g = ready]
    score_changes_only_by_scoring_actions[where a = "FinalizeDiscovery ''omega''" and g = ready]
    ready_facts(3) finished_facts(1) with_crystal_facts(2)
  by (simp add: finished_def)

section \<open>Step limits\<close>




section \<open>Cost modifiers\<close>

text \<open>
  C7. A successful decode deducts 1 energy when \<^verbatim>\<open>signal_scanner\<close> is in the inventory
  at the call, and 2 otherwise. A successful analyze deducts 0 when \<^verbatim>\<open>vibration_analyzer\<close>
  is in the inventory and a signal of the current area contains \<^verbatim>\<open>harmonic\<close> or
  \<^verbatim>\<open>Gamma\<close>, and 1 otherwise. Both costs are functions of the inventory and the current
  area of the state the call is made in.
\<close>

theorem cost_modifiers:
  "(fst (decodeSignal s1 s2 g) = Inr p \<longrightarrow>
      energy (snd (decodeSignal s1 s2 g)) =
        energy g - (if ''signal_scanner'' \<in> set (artifacts g) then 1 else 2))
   \<and> (fst (analyzeClue s g) = Inr q \<longrightarrow>
      (\<exists>cur. area g (position g) = Some cur \<and>
         energy (snd (analyzeClue s g)) =
           energy g - (if ''vibration_analyzer'' \<in> set (artifacts g) \<and>
                          (\<exists>x \<in> set (signals cur).
                              str_includes x ''harmonic'' \<or> str_includes x ''Gamma'')
                       then 0 else 1)))"
  using decode_cost[of s1 s2 g p] analyze_cost[of s g q] by blast

theorem cost_modifiers_witness:
  "energy (snd (analyzeClue ''harmonic_sequence'' geared)) = 26
   \<and> energy (snd (decodeSignal ''basic_frequency'' ''harmonic_sequence'' geared_analyzed)) = 25
   \<and> energy (snd (analyzeClue ''basic_frequency'' init)) = 29
   \<and> energy (snd (decodeSignal ''basic_frequency'' ''harmonic_sequence'' paired)) = 25"
  using cost_modifiers[where g = geared and s = "''harmonic_sequence''"
      and q = "Analyzed ''harmonic_sequence: Gamma harmonics - builds on alpha, multiplies by 1.5'' 0"
      and ?s1.0 = "''basic_frequency''" and ?s2.0 = "''harmonic_sequence''"]
    cost_modifiers[where g = geared_analyzed
      and ?s1.0 = "''basic_frequency''" and ?s2.0 = "''harmonic_sequence''"
      and p = "Decoded \<lparr>decoded = ''Alpha-Gamma Harmonic Link'', recipe_value = 100,
                   bonus = ''pattern_chain''\<rparr> 1"
      and s = "''basic_frequency''"]
    cost_modifiers[where g = init and s = "''basic_frequency''"
      and q = "Analyzed ''basic_frequency: Alpha waves detected - pattern repeats every 3 units'' 1"
      and ?s1.0 = "''basic_frequency''" and ?s2.0 = "''harmonic_sequence''"]
    cost_modifiers[where g = paired
      and ?s1.0 = "''basic_frequency''" and ?s2.0 = "''harmonic_sequence''"
      and p = "Decoded \<lparr>decoded = ''Alpha-Gamma Harmonic Link'', recipe_value = 100,
                   bonus = ''pattern_chain''\<rparr> 2"
      and s = "''basic_frequency''"]
    geared_facts init_facts(1,3,5,7) paired_facts(1,2,3)
  by simp

section \<open>The final score of the travel game\<close>

text \<open>
  C8. When every visited city is in the city database, as in every reachable state,
  \<^verbatim>\<open>TravelGame.getFinalScore\<close> returns the sum of the values of the visited cities, plus
  5 for every full 100 of budget left, plus 500 exactly when paris, tokyo, sydney, rio
  and capetown have all been visited. The result does not depend on the step counter
  or on the running score, and the game state has no reflection list.
\<close>

theorem travel_final_score:
  "((\<forall>c \<in> set (visitedCities g). map_of cities c \<noteq> None) \<longrightarrow>
      travel_getFinalScore g = Some (spec_travel_score g))
   \<and> (travel_reachable g \<longrightarrow> travel_getFinalScore g = Some (spec_travel_score g))
   \<and> travel_getFinalScore (g\<lparr>travel_stepCount := n, travel_score := sc\<rparr>)
       = travel_getFinalScore g"
proof (intro conjI impI)
  assume "\<forall>c \<in> set (visitedCities g). map_of cities c \<noteq> None"
  then show "travel_getFinalScore g = Some (spec_travel_score g)" by (rule travel_score_spec)
next
  assume "travel_reachable g"
  then have "travel_inv g" by (rule travel_reachable_inv)
  then have "\<forall>c \<in> set (visitedCities g). map_of cities c \<noteq> None"
    by (simp add: travel_inv_def list_all_iff)
  then show "travel_getFinalScore g = Some (spec_travel_score g)" by (rule travel_score_spec)
next
  show "travel_getFinalScore (g\<lparr>travel_stepCount := n, travel_score := sc\<rparr>)
       = travel_getFinalScore g"
    by (simp add: travel_getFinalScore_def Let_def split: option.splits)
qed

theorem travel_final_score_witness:
  "travel_getFinalScore grand_tour = Some 1270
   \<and> travel_getFinalScore travel_init = Some 150
   \<and> travel_getFinalScore (travel_init\<lparr>travel_stepCount := 7, travel_score := 99\<rparr>) = Some 150"
proof -
  have known: "\<forall>c \<in> set (visitedCities grand_tour). map_of cities c \<noteq> None"
    by (simp add: grand_tour_def travel_init_def cities_def)
  have tour: "spec_travel_score grand_tour = 1270"
    by (simp add: spec_travel_score_def grand_tour_def travel_init_def valueOf_def cities_def)
  have start: "spec_travel_score travel_init = 150"
    by (simp add: spec_travel_score_def travel_init_def valueOf_def cities_def)
  show ?thesis
    using travel_final_score[where g = grand_tour and n = 0 and sc = 0]
      travel_final_score[where g = travel_init and n = 7 and sc = 99]
      known tour start travel_reach_init
    by simp
qed

section \<open>The hypotheses list\<close>

text \<open>
  C9. No action changes the hypotheses list (\<^verbatim>\<open>finalizeDiscovery\<close> only echoes its
  \<^verbatim>\<open>finalHypothesis\<close> in the payload), so in every reachable state the list is empty,
  the reflection bonus of \<^verbatim>\<open>getFinalScore\<close> is 0, and the final score is the running
  score plus the energy bonus plus the efficiency bonus.
\<close>

theorem hypotheses_always_empty:
  "hypotheses (snd (execute a g)) = hypotheses g
   \<and> (reachable g \<longrightarrow>
        hypotheses g = []
        \<and> int (length (hypotheses g)) * 50 = 0
        \<and> getFinalScore g =
            score g + energy g * 10
            + (let efficiency = (if stepCount g > 0
                                 then real_of_int (score g) / real_of_int (stepCount g) else 0)
               in if efficiency > 100 then 200 else if efficiency > 50 then 100 else 0))"
proof (intro conjI impI)
  show "hypotheses (snd (execute a g)) = hypotheses g" by (rule hypotheses_step)
next
  assume r: "reachable g"
  then show h: "hypotheses g = []" by (rule reachable_hypotheses)
  then show "int (length (hypotheses g)) * 50 = 0" by simp
  show "getFinalScore g =
            score g + energy g * 10
            + (let efficiency = (if stepCount g > 0
                                 then real_of_int (score g) / real_of_int (stepCount g) else 0)
               in if efficiency > 100 then 200 else if efficiency > 50 then 100 else 0)"
    using h by (simp add: getFinalScore_def Let_def)
qed

theorem hypotheses_always_empty_witness:
  "hypotheses finished = [] \<and> getFinalScore finished = 1210"
  using hypotheses_always_empty[where a = ExploreConnections and g = finished] reachable_finished finished_facts
  by (simp add: Let_def)

section \<open>The completed flag is never read\<close>

text \<open>
  C10. No tool reads the completed flag: with the flag set to any value, every action
  returns the same result and leaves the same game, up to the flag itself. At
  \<^verbatim>\<open>signal_source\<close> with at least three decoded pairs, finalizing succeeds, and
  finalizing again succeeds again: the step counter goes up by one and the running
  score by another 500.
\<close>

theorem completed_never_checked:
  "fst (execute a (g\<lparr>completed := b\<rparr>)) = fst (execute a g)
   \<and> (snd (execute a (g\<lparr>completed := b\<rparr>)))\<lparr>completed := c\<rparr>
       = (snd (execute a g))\<lparr>completed := c\<rparr>
   \<and> (position g = ''signal_source'' \<longrightarrow> 3 \<le> length (decodedSignals g) \<longrightarrow>
        completed (snd (finalizeDiscovery h1 g))
        \<and> (\<exists>p. fst (finalizeDiscovery h2 (snd (finalizeDiscovery h1 g))) = Inr p)
        \<and> stepCount (snd (finalizeDiscovery h2 (snd (finalizeDiscovery h1 g))))
            = stepCount (snd (finalizeDiscovery h1 g)) + 1
        \<and> score (snd (finalizeDiscovery h2 (snd (finalizeDiscovery h1 g))))
            = score (snd (finalizeDiscovery h1 g)) + 500
        \<and> completed (snd (finalizeDiscovery h2 (snd (finalizeDiscovery h1 g)))))"
proof (intro conjI impI)
  show "fst (execute a (g\<lparr>completed := b\<rparr>)) = fst (execute a g)"
    using completed_irrelevant[where a = a and g = g and b = b and c = c] by blast
  show "(snd (execute a (g\<lparr>completed := b\<rparr>)))\<lparr>completed := c\<rparr>
       = (snd (execute a g))\<lparr>completed := c\<rparr>"
    using completed_irrelevant[where a = a and g = g and b = b and c = c] by blast
next
  assume at: "position g = ''signal_source''" and n: "3 \<le> length (decodedSignals g)"
  let ?g1 = "snd (finalizeDiscovery h1 g)"
  from at n obtain p1 where p1: "fst (finalizeDiscovery h1 g) = Inr p1"
    using finalize_iff[of h1 g] by blast
  note g1 = finalize_ok[OF p1]
  show "completed ?g1" by (simp add: g1)
  have "position ?g1 = ''signal_source''" "3 \<le> length (decodedSignals ?g1)"
    using at n by (simp_all add: g1)
  then obtain p2 where p2: "fst (finalizeDiscovery h2 ?g1) = Inr p2"
    using finalize_iff[of h2 ?g1] by blast
  then show "\<exists>p. fst (finalizeDiscovery h2 ?g1) = Inr p" by blast
  note g2 = finalize_ok[OF p2]
  show "stepCount (snd (finalizeDiscovery h2 ?g1)) = stepCount ?g1 + 1"
    by (subst g2) simp
  show "score (snd (finalizeDiscovery h2 ?g1)) = score ?g1 + 500"
    by (subst g2) simp
  show "completed (snd (finalizeDiscovery h2 ?g1))"
    by (subst g2) simp
qed

theorem completed_never_checked_witness:
  "completed finished
   \<and> fst (finalizeDiscovery ''again'' finished) = Inr (Finalized 1510 100)
   \<and> stepCount (snd (finalizeDiscovery ''again'' finished)) = 14
   \<and> score (snd (finalizeDiscovery ''again'' finished)) = 1510
   \<and> completed (snd (finalizeDiscovery ''again'' finished))"
  using completed_never_checked[where a = ExploreConnections and g = ready and b = True
      and c = True and ?h1.0 = "''omega''" and ?h2.0 = "''again''"]
    ready_facts(1,2) finished_facts
  by (simp add: finished_def)


end
